theory Spec2Isabelle
  imports Complex_Main "HOL-Library.Sublist"
begin

section \<open>JavaScript values\<close>

text \<open>
  A JavaScript string is a sequence of code units. The model uses \<^typ>\<open>string\<close>, so it covers
  the strings whose code units lie in 0..255 (Latin-1); \<open>length\<close> is \<^verbatim>\<open>.length\<close> and
  \<open>@\<close> is \<^verbatim>\<open>+\<close>. A thrown value is an element of \<open>js_error\<close> and a computation that may
  throw returns \<open>js_error + 'a\<close>.
\<close>

datatype js_error = Error string | SyntaxError string | TypeError string

text \<open>The property \<^verbatim>\<open>message\<close> of a thrown error.\<close>

fun error_message :: "js_error \<Rightarrow> string" where
  "error_message (Error m) = m"
| "error_message (SyntaxError m) = m"
| "error_message (TypeError m) = m"

text \<open>The class \<^verbatim>\<open>\s\<close> restricted to Latin-1: TAB, LF, VT, FF, CR, space and NBSP.\<close>

definition is_space :: "char \<Rightarrow> bool" where
  "is_space c = (c \<in> set [CHR 0x09, CHR 0x0A, CHR 0x0B, CHR 0x0C, CHR 0x0D, CHR 0x20, CHR 0xA0])"

text \<open>
  \<^verbatim>\<open>String.prototype.split\<close> with a regular expression that never matches the empty
  string. The matcher \<open>m\<close> is the expression anchored at the head of its argument and
  returns the length of the match. \<open>cur\<close> is the piece collected since the last
  separator.
\<close>

fun js_split :: "(string \<Rightarrow> nat option) \<Rightarrow> string \<Rightarrow> string \<Rightarrow> string list" where
  "js_split m cur [] = [cur]"
| "js_split m cur (c # r) =
     (case m (c # r) of
        Some (Suc k) \<Rightarrow> cur # js_split m [] (drop k r)
      | _ \<Rightarrow> js_split m (cur @ [c]) r)"

text \<open>
  \<^verbatim>\<open>/\n\s*\n/\<close> at the head of \<open>s\<close>: a line feed, then the longest run of white space
  that still leaves a line feed to close the match (greedy, with backtracking), so the
  match ends at the last line feed of the white-space run that follows the first one.
\<close>

definition blank_line :: "string \<Rightarrow> nat option" where
  "blank_line s =
     (case s of
        [] \<Rightarrow> None
      | c # r \<Rightarrow>
          if c = CHR 0x0A then
            (let w = takeWhile is_space r in
             if CHR 0x0A \<in> set w
             then Some (Suc (length w - length (takeWhile (\<lambda>x. x \<noteq> CHR 0x0A) (rev w))))
             else None)
          else None)"

text \<open>\<^verbatim>\<open>/\s+/\<close> at the head of \<open>s\<close>: the longest run of white space, when not empty.\<close>

definition space_run :: "string \<Rightarrow> nat option" where
  "space_run s = (case takeWhile is_space s of [] \<Rightarrow> None | w \<Rightarrow> Some (length w))"

text \<open>\<^verbatim>\<open>Array.prototype.join\<close> on an array of strings.\<close>

fun join :: "string \<Rightarrow> string list \<Rightarrow> string" where
  "join sep [] = []"
| "join sep [x] = x"
| "join sep (x # y # r) = x @ sep @ join sep (y # r)"

section \<open>utils: chunkContent\<close>

text \<open>
  The \<^verbatim>\<open>for (const paragraph of paragraphs)\<close> loop of \<^verbatim>\<open>chunkContent\<close>; the state is
  the pair \<^verbatim>\<open>(chunks, currentChunk)\<close>. An empty string is falsy, so the separator is
  added only to a non-empty \<^verbatim>\<open>currentChunk\<close>.
\<close>

fun chunk_loop :: "int \<Rightarrow> string list \<Rightarrow> string list \<times> string \<Rightarrow> string list \<times> string" where
  "chunk_loop maxChunkLength [] st = st"
| "chunk_loop maxChunkLength (paragraph # ps) (chunks, currentChunk) =
     (if int (length (currentChunk @ paragraph)) > maxChunkLength \<and> length currentChunk > 0
      then chunk_loop maxChunkLength ps (chunks @ [currentChunk], paragraph)
      else chunk_loop maxChunkLength ps
             (chunks, currentChunk @ (if currentChunk \<noteq> [] then ''\<newline>\<newline>'' else []) @ paragraph))"

definition chunkContent :: "string \<Rightarrow> int \<Rightarrow> string list" where
  "chunkContent content maxChunkLength =
     (if int (length content) \<le> maxChunkLength then [content]
      else (case chunk_loop maxChunkLength (js_split blank_line [] content) ([], []) of
              (chunks, currentChunk) \<Rightarrow>
                if currentChunk \<noteq> [] then chunks @ [currentChunk] else chunks))"

text \<open>
  The runs of consecutive paragraphs that the loop turns into segments: \<open>g\<close> is the run
  being accumulated. Used to state where the segment boundaries fall.
\<close>

fun chunk_groups :: "int \<Rightarrow> string list \<Rightarrow> string list \<Rightarrow> string list list" where
  "chunk_groups m [] g = (if g = [] then [] else [g])"
| "chunk_groups m (p # ps) g =
     (if int (length (join ''\<newline>\<newline>'' g @ p)) > m \<and> g \<noteq> []
      then g # chunk_groups m ps [p]
      else chunk_groups m ps (g @ [p]))"

section \<open>JavaScript numbers, sorting and slicing\<close>

text \<open>
  The values of an IEEE double: a real number, the two infinities and NaN (the two zeros
  are one value: no function of the program tells them apart). Comparison is exact on
  these values. \<open>js_sub\<close> is used for the sign of a difference only, which rounding
  keeps.
\<close>

datatype number = NaN | NegInf | Num real | PosInf

fun js_gt :: "number \<Rightarrow> number \<Rightarrow> bool" where
  "js_gt NaN b = False"
| "js_gt a NaN = False"
| "js_gt NegInf b = False"
| "js_gt PosInf b = (b \<noteq> PosInf)"
| "js_gt (Num x) NegInf = True"
| "js_gt (Num x) PosInf = False"
| "js_gt (Num x) (Num y) = (x > y)"

fun js_sub :: "number \<Rightarrow> number \<Rightarrow> number" where
  "js_sub NaN b = NaN"
| "js_sub a NaN = NaN"
| "js_sub PosInf PosInf = NaN"
| "js_sub NegInf NegInf = NaN"
| "js_sub PosInf b = PosInf"
| "js_sub NegInf b = NegInf"
| "js_sub (Num x) PosInf = NegInf"
| "js_sub (Num x) NegInf = PosInf"
| "js_sub (Num x) (Num y) = Num (x - y)"

fun js_ge :: "number \<Rightarrow> number \<Rightarrow> bool" where
  "js_ge NaN b = False"
| "js_ge a NaN = False"
| "js_ge PosInf b = True"
| "js_ge a NegInf = True"
| "js_ge NegInf b = False"
| "js_ge (Num x) PosInf = False"
| "js_ge (Num x) (Num y) = (x \<ge> y)"

fun js_strict_eq :: "number \<Rightarrow> number \<Rightarrow> bool" where
  "js_strict_eq NaN b = False"
| "js_strict_eq a NaN = False"
| "js_strict_eq a b = (a = b)"

text \<open>
  The rounded operations of double arithmetic are parameters: nothing proved below
  depends on how \<^verbatim>\<open>+\<close>, \<^verbatim>\<open>*\<close>, \<^verbatim>\<open>/\<close> and \<^verbatim>\<open>Math.sqrt\<close> round.
\<close>

record float_ops =
  fadd :: "number \<Rightarrow> number \<Rightarrow> number"
  fmul :: "number \<Rightarrow> number \<Rightarrow> number"
  fdiv :: "number \<Rightarrow> number \<Rightarrow> number"
  fsqrt :: "number \<Rightarrow> number"

text \<open>
  \<^verbatim>\<open>Array.prototype.sort(compare)\<close>: the stable sort. \<open>x\<close> stood before every element
  of \<open>ys\<close>; it stays in front of \<open>y\<close> unless \<^verbatim>\<open>compare(x, y) > 0\<close> (a NaN counts as 0).
\<close>

fun sort_insert :: "('a \<Rightarrow> 'a \<Rightarrow> number) \<Rightarrow> 'a \<Rightarrow> 'a list \<Rightarrow> 'a list" where
  "sort_insert compare x [] = [x]"
| "sort_insert compare x (y # ys) =
     (if js_gt (compare x y) (Num 0) then y # sort_insert compare x ys else x # y # ys)"

definition js_sort :: "('a \<Rightarrow> 'a \<Rightarrow> number) \<Rightarrow> 'a list \<Rightarrow> 'a list" where
  "js_sort compare xs = foldr (sort_insert compare) xs []"

text \<open>
  \<^verbatim>\<open>xs.slice(0, n)\<close> for an integer \<open>n\<close>: a negative end counts from the end of the array.
\<close>

definition slice0 :: "'a list \<Rightarrow> int \<Rightarrow> 'a list" where
  "slice0 xs n = (if n < 0 then take (nat (int (length xs) + n)) xs else take (nat n) xs)"

section \<open>JavaScript strings: case, search, regular expressions\<close>

text \<open>\<^verbatim>\<open>toLowerCase\<close> on Latin-1: A-Z and the capital letters 0xC0-0xDE (but 0xD7).\<close>

definition to_lower_char :: "char \<Rightarrow> char" where
  "to_lower_char c =
     (let n = (of_char c :: nat) in
      if (65 \<le> n \<and> n \<le> 90) \<or> (192 \<le> n \<and> n \<le> 222 \<and> n \<noteq> 215) then char_of (n + 32) else c)"

definition toLowerCase :: "string \<Rightarrow> string" where
  "toLowerCase s = map to_lower_char s"

text \<open>\<^verbatim>\<open>s.includes(k)\<close>: \<open>k\<close> occurs in \<open>s\<close> as a substring.\<close>

fun js_includes :: "string \<Rightarrow> string \<Rightarrow> bool" where
  "js_includes [] k = (k = [])"
| "js_includes (c # s) k = (prefix k (c # s) \<or> js_includes s k)"

text \<open>
  The number of matches of a pattern without syntax characters, under the flag \<open>g\<close>:
  the occurrences of \<open>k\<close> in \<open>s\<close> found from left to right, each search starting where
  the last match ended (one further after an empty match).
\<close>

fun count_literal :: "string \<Rightarrow> string \<Rightarrow> nat" where
  "count_literal k [] = (if k = [] then 1 else 0)"
| "count_literal k (c # s) =
     (if prefix k (c # s) then Suc (count_literal k (drop (length k - 1) s))
      else count_literal k s)"

text \<open>The SyntaxCharacters of the pattern grammar, and its quantifier characters.\<close>

definition syntax_character :: "char \<Rightarrow> bool" where
  "syntax_character c =
     (c \<in> set [CHR ''^'', CHR ''$'', CHR 0x5C, CHR ''.'', CHR ''*'', CHR ''+'', CHR ''?'',
               CHR ''('', CHR '')'', CHR ''['', CHR '']'', CHR ''{'', CHR ''}'', CHR ''|''])"

definition quantifier_character :: "char \<Rightarrow> bool" where
  "quantifier_character c = (c \<in> set [CHR ''*'', CHR ''+'', CHR ''?''])"

text \<open>
  A pattern made of pattern characters and quantifier characters only is a sequence of
  terms \<open>Atom Quantifier?\<close> with \<open>Quantifier ::= (* | + | ?) ??\<close>. The three functions
  follow the parser: before an atom, after an atom, after a quantifier prefix. They
  return True when a quantifier character stands where there is nothing to repeat.
\<close>

fun dangling_at_atom :: "string \<Rightarrow> bool"
  and dangling_after_atom :: "string \<Rightarrow> bool"
  and dangling_after_quantifier :: "string \<Rightarrow> bool" where
  "dangling_at_atom [] = False"
| "dangling_at_atom (c # p) = (if quantifier_character c then True else dangling_after_atom p)"
| "dangling_after_atom [] = False"
| "dangling_after_atom (c # p) =
     (if quantifier_character c then dangling_after_quantifier p else dangling_after_atom p)"
| "dangling_after_quantifier [] = False"
| "dangling_after_quantifier (c # p) =
     (if c = CHR ''?'' then dangling_at_atom p
      else if quantifier_character c then True
      else dangling_after_atom p)"

text \<open>
  \<^verbatim>\<open>(content.match(new RegExp(keyword, 'g')) || []).length\<close>. Two kinds of pattern are
  modelled here: a pattern without syntax characters matches itself, and a pattern of
  pattern and quantifier characters with a quantifier that has nothing to repeat makes
  \<^verbatim>\<open>new RegExp\<close> throw a SyntaxError (the message is the one of V8). For every other
  pattern the result is the one of the parameter \<open>re\<close>, the regular-expression engine of
  the runtime.
\<close>

definition regexp_match_count ::
  "(string \<Rightarrow> string \<Rightarrow> js_error + nat) \<Rightarrow> string \<Rightarrow> string \<Rightarrow> js_error + nat" where
  "regexp_match_count re keyword content =
     (if \<not> list_ex syntax_character keyword then Inr (count_literal keyword content)
      else if list_all (\<lambda>c. quantifier_character c \<or> \<not> syntax_character c) keyword
              \<and> dangling_at_atom keyword
      then Inl (SyntaxError (''Invalid regular expression: /'' @ keyword @ ''/: Nothing to repeat''))
      else re keyword content)"

section \<open>types\<close>

record doc_metadata =
  embedding :: "number list option"
  parentId :: "string option"
  chunkIndex :: "nat option"
  other_entries :: "(string \<times> string) list"

record knowledge_document =
  doc_id :: string
  doc_title :: string
  doc_content :: string
  metadata :: "doc_metadata option"

record search_result =
  documentId :: string
  title :: string
  excerpt :: string
  relevanceScore :: number

record vector_store_entry =
  entry_documentId :: string
  entry_embedding :: "number list"

section \<open>utils: synonyms, excerpts, keyword search\<close>

definition getSynonymMap :: "(string \<times> string list) list" where
  "getSynonymMap =
    [(''cancel'', [''cancelation'', ''cancelling'', ''reschedule'', ''abort'', ''terminate'']),
     (''appointment'', [''meeting'', ''session'', ''consultation'', ''booking'', ''reservation'']),
     (''reschedule'', [''change'', ''move'', ''adjust'', ''shift'', ''postpone'']),
     (''virtual'', [''online'', ''remote'', ''digital'', ''video'', ''teleconference'']),
     (''policy'', [''rule'', ''guideline'', ''regulation'', ''procedure'', ''protocol'']),
     (''fee'', [''charge'', ''cost'', ''payment'', ''price'', ''expense'']),
     (''late'', [''tardy'', ''delayed'', ''behind schedule'', ''not on time'']),
     (''available'', [''free'', ''open'', ''vacant'', ''accessible'', ''obtainable'']),
     (''unavailable'', [''busy'', ''occupied'', ''booked'', ''reserved'', ''taken'']),
     (''doctor'', [''physician'', ''specialist'', ''practitioner'', ''clinician'']),
     (''location'', [''place'', ''venue'', ''site'', ''facility'', ''address'']),
     (''time'', [''schedule'', ''slot'', ''hour'', ''period'', ''duration''])]"

text \<open>\<^verbatim>\<open>Set.prototype.add\<close>: a set keeps its elements in the order of their first insertion.\<close>

definition set_add :: "'a list \<Rightarrow> 'a \<Rightarrow> 'a list" where
  "set_add xs x = (if x \<in> set xs then xs else xs @ [x])"

text \<open>
  The body of \<^verbatim>\<open>keywords.forEach(keyword => ...)\<close>: the keyword itself, then the whole
  group of every entry of the synonym map that holds it as its term or as a synonym.
\<close>

definition expand_keyword :: "string list \<Rightarrow> string \<Rightarrow> string list" where
  "expand_keyword expanded keyword =
     foldl (\<lambda>acc (word, synonyms).
              if keyword = word \<or> keyword \<in> set synonyms
              then foldl set_add (set_add acc word) synonyms
              else acc)
       (set_add expanded keyword) getSynonymMap"

definition expand_keywords :: "string list \<Rightarrow> string list" where
  "expand_keywords keywords = foldl expand_keyword [] keywords"

text \<open>
  \<^verbatim>\<open>content.match(/[^.!?]+[.!?]+/g) || []\<close>: a sentence is a longest run of characters
  other than \<open>.\<close>, \<open>!\<close>, \<open>?\<close> followed by a longest run of these; a run with no such mark
  after it reaches the end of the content and ends the search.
\<close>

definition terminal_mark :: "char \<Rightarrow> bool" where
  "terminal_mark c = (c \<in> set [CHR ''.'', CHR ''!'', CHR ''?''])"

function sentences_of :: "string \<Rightarrow> string list" where
  "sentences_of s =
     (if s = [] then []
      else if terminal_mark (hd s) then sentences_of (tl s)
      else (let body = takeWhile (\<lambda>c. \<not> terminal_mark c) s;
                r = dropWhile (\<lambda>c. \<not> terminal_mark c) s;
                marks = takeWhile terminal_mark r
            in if marks = [] then []
               else (body @ marks) # sentences_of (dropWhile terminal_mark r)))"
  by pat_completeness auto
termination
proof (relation "measure length")
  fix s :: string
  assume "s \<noteq> []"
  then show "(tl s, s) \<in> measure length"
    by (cases s) auto
next
  fix s :: string and r marks :: string
  assume r: "r = dropWhile (\<lambda>c. \<not> terminal_mark c) s"
    and marks: "marks = takeWhile terminal_mark r" "marks \<noteq> []"
  from marks obtain x xs where x: "r = x # xs" "terminal_mark x"
    by (cases r) (auto split: if_splits)
  then have "length (dropWhile terminal_mark r) \<le> length xs"
    by (simp add: length_dropWhile_le)
  also have "length xs < length r"
    using x by simp
  also have "length r \<le> length s"
    unfolding r by (rule length_dropWhile_le)
  finally show "(dropWhile terminal_mark r, s) \<in> measure length"
    by simp
qed simp

text \<open>\<^verbatim>\<open>scores.indexOf(Math.max(...scores))\<close> for a non-empty array of counts.\<close>

definition index_of_max :: "nat list \<Rightarrow> nat" where
  "index_of_max scores = length (takeWhile (\<lambda>x. x \<noteq> foldr max scores 0) scores)"

definition extractRelevantExcerpt :: "string \<Rightarrow> string \<Rightarrow> nat \<Rightarrow> string" where
  "extractRelevantExcerpt content query maxLength =
     (let sentences = sentences_of content in
      if length sentences = 0
      then take maxLength content @ (if length content > maxLength then ''...'' else [])
      else
        (let queryWords = js_split space_run [] (toLowerCase query);
             expandedQueryWords = expand_keywords queryWords;
             sentenceScores =
               map (\<lambda>sentence. length (filter (js_includes (toLowerCase sentence)) expandedQueryWords))
                 sentences;
             bestSentenceIndex = index_of_max sentenceScores;
             contextSize = 2;
             startIdx = bestSentenceIndex - contextSize;
             endIdx = min (length sentences) (bestSentenceIndex + contextSize + 1);
             excerpt = join '' '' (take (endIdx - startIdx) (drop startIdx sentences))
         in if length excerpt > maxLength then take (maxLength - 3) excerpt @ ''...'' else excerpt))"

text \<open>
  The body of \<^verbatim>\<open>expandedKeywords.forEach(keyword => ...)\<close> for one document, from the
  first keyword on: 10 for a keyword found in the title, and the number of matches of the
  keyword, compiled as a regular expression, in the content. An exception of
  \<^verbatim>\<open>new RegExp\<close> leaves the loop.
\<close>

fun score_keywords ::
  "(string \<Rightarrow> string \<Rightarrow> js_error + nat) \<Rightarrow> string \<Rightarrow> string \<Rightarrow> string list \<Rightarrow> nat \<Rightarrow> js_error + nat" where
  "score_keywords re lowerTitle lowerContent [] score = Inr score"
| "score_keywords re lowerTitle lowerContent (keyword # ks) score =
     (let score1 = (if js_includes lowerTitle keyword then score + 10 else score) in
      case regexp_match_count re keyword lowerContent of
        Inl e \<Rightarrow> Inl e
      | Inr contentMatches \<Rightarrow> score_keywords re lowerTitle lowerContent ks (score1 + contentMatches))"

text \<open>\<^verbatim>\<open>xs.map(f)\<close> for an \<open>f\<close> that may throw: the first exception ends the map.\<close>

fun map_throwing :: "('a \<Rightarrow> js_error + 'b) \<Rightarrow> 'a list \<Rightarrow> js_error + 'b list" where
  "map_throwing f [] = Inr []"
| "map_throwing f (x # xs) =
     (case f x of
        Inl e \<Rightarrow> Inl e
      | Inr y \<Rightarrow> (case map_throwing f xs of Inl e \<Rightarrow> Inl e | Inr ys \<Rightarrow> Inr (y # ys)))"

definition score_document ::
  "(string \<Rightarrow> string \<Rightarrow> js_error + nat) \<Rightarrow> string \<Rightarrow> string list \<Rightarrow> knowledge_document
     \<Rightarrow> js_error + search_result" where
  "score_document re query expandedKeywords doc =
     (case score_keywords re (toLowerCase (doc_title doc)) (toLowerCase (doc_content doc))
             expandedKeywords 0 of
        Inl e \<Rightarrow> Inl e
      | Inr score \<Rightarrow>
          Inr \<lparr>documentId = doc_id doc, title = doc_title doc,
               excerpt = extractRelevantExcerpt (doc_content doc) query 300,
               relevanceScore = Num (real score)\<rparr>)"

definition by_relevance :: "search_result \<Rightarrow> search_result \<Rightarrow> number" where
  "by_relevance a b = js_sub (relevanceScore b) (relevanceScore a)"

definition basicKeywordSearch ::
  "(string \<Rightarrow> string \<Rightarrow> js_error + nat) \<Rightarrow> string \<Rightarrow> knowledge_document list \<Rightarrow> int
     \<Rightarrow> js_error + search_result list" where
  "basicKeywordSearch re query documents maxResults =
     (let lowerQuery = toLowerCase query;
          keywords = filter (\<lambda>k. length k > 2) (js_split space_run [] lowerQuery);
          expandedKeywords = expand_keywords keywords
      in case map_throwing (score_document re query expandedKeywords) documents of
           Inl e \<Rightarrow> Inl e
         | Inr results \<Rightarrow>
             Inr (slice0
                    (js_sort by_relevance
                       (filter (\<lambda>result. js_gt (relevanceScore result) (Num 0)) results))
                    maxResults))"

section \<open>utils: calculateCosineSimilarity\<close>

fun cosine_loop ::
  "float_ops \<Rightarrow> number list \<Rightarrow> number list \<Rightarrow> number \<times> number \<times> number
     \<Rightarrow> number \<times> number \<times> number" where
  "cosine_loop ops (a # vecA) (b # vecB) (dotProduct, normA, normB) =
     cosine_loop ops vecA vecB
       (fadd ops dotProduct (fmul ops a b), fadd ops normA (fmul ops a a),
        fadd ops normB (fmul ops b b))"
| "cosine_loop ops vecA vecB acc = acc"

definition calculateCosineSimilarity :: "float_ops \<Rightarrow> number list \<Rightarrow> number list \<Rightarrow> number" where
  "calculateCosineSimilarity ops vecA vecB =
     (if length vecA \<noteq> length vecB then Num 0
      else (case cosine_loop ops vecA vecB (Num 0, Num 0, Num 0) of
              (dotProduct, sumA, sumB) \<Rightarrow>
                (let normA = fsqrt ops sumA; normB = fsqrt ops sumB in
                 if js_strict_eq normA (Num 0) \<or> js_strict_eq normB (Num 0) then Num 0
                 else fdiv ops dotProduct (fmul ops normA normB))))"

section \<open>utils: generateEmbeddingsForDocuments\<close>








section \<open>utils: persistKnowledgeBase\<close>













section \<open>types: messages\<close>

datatype role = System | User | Assistant | Tool

text \<open>A tool call of a completion: \<^verbatim>\<open>id\<close>, \<^verbatim>\<open>function.name\<close>, \<^verbatim>\<open>function.arguments\<close>.\<close>

record tool_call =
  call_id :: string
  function_name :: string
  function_arguments :: string

text \<open>
  A \<^verbatim>\<open>Message\<close>, with the \<^verbatim>\<open>tool_calls\<close> property that \<^verbatim>\<open>chatWithBot\<close> adds to one
  assistant message. The optional \<^verbatim>\<open>name\<close> is never written or read and is left out.
\<close>

record message =
  role :: role
  content :: string
  tool_call_id :: "string option"
  tool_calls :: "tool_call list option"

record chat_response =
  response :: string
  updatedHistory :: "message list"

text \<open>
  \<^verbatim>\<open>ChatCompletionMessageParam\<close> as \<^verbatim>\<open>convertToOpenAIMessage\<close> builds it: a role with
  a content, and the identifier of the call for a tool message.
\<close>

datatype chat_param =
  SystemParam string
| UserParam string
| AssistantParam string
| ToolParam string string

text \<open>An absent and an empty \<^verbatim>\<open>tool_call_id\<close> are both falsy.\<close>

definition convertToOpenAIMessage :: "message \<Rightarrow> js_error + chat_param" where
  "convertToOpenAIMessage m =
     (case role m of
        System \<Rightarrow> Inr (SystemParam (content m))
      | User \<Rightarrow> Inr (UserParam (content m))
      | Assistant \<Rightarrow> Inr (AssistantParam (content m))
      | Tool \<Rightarrow>
          (case tool_call_id m of
             None \<Rightarrow> Inl (Error ''Tool messages must have tool_call_id'')
           | Some i \<Rightarrow>
               if i = [] then Inl (Error ''Tool messages must have tool_call_id'')
               else Inr (ToolParam (content m) i)))"

section \<open>The services around the program\<close>

text \<open>
  A request to \<^verbatim>\<open>chat.completions.create\<close>: the messages, and whether the tools are
  offered (the first request of a turn) or not (the second). The answer is
  \<^verbatim>\<open>choices[0].message\<close>: a content that may be null and the tool calls, when present.
\<close>

record chat_request =
  request_messages :: "chat_param list"
  request_tools :: bool

record completion_message =
  reply_content :: "string option"
  reply_tool_calls :: "tool_call list option"

text \<open>
  What the program reaches through its clients and its runtime, as functions whose
  failure is an exception: the embedding of a text (\<^verbatim>\<open>data[0].embedding\<close> of the
  response), the chat completion, the regular-expression engine on the patterns that
  \<open>regexp_match_count\<close> leaves to it, and double arithmetic. \<open>systemPrompt\<close> is the
  constant text of that name.
\<close>

record services =
  embeddings_create :: "string \<Rightarrow> js_error + number list"
  chat_completions_create :: "chat_request \<Rightarrow> js_error + completion_message"
  regexp_engine :: "string \<Rightarrow> string \<Rightarrow> js_error + nat"
  arith :: float_ops
  systemPrompt :: string

text \<open>The two module variables \<^verbatim>\<open>knowledgeBase\<close> and \<^verbatim>\<open>vectorStore\<close>.\<close>

record kb_state =
  knowledgeBase :: "knowledge_document list"
  vectorStore :: "vector_store_entry list"

section \<open>index: semanticSearch\<close>

text \<open>
  The function of \<^verbatim>\<open>vectorStore.map\<close>: null for an entry whose document is not in the
  knowledge base, the scored result otherwise.
\<close>

definition score_entry ::
  "services \<Rightarrow> kb_state \<Rightarrow> string \<Rightarrow> number list \<Rightarrow> vector_store_entry \<Rightarrow> search_result option" where
  "score_entry sv st query queryEmbedding entry =
     (case find (\<lambda>d. doc_id d = entry_documentId entry) (knowledgeBase st) of
        None \<Rightarrow> None
      | Some doc \<Rightarrow>
          (let similarity =
                 calculateCosineSimilarity (arith sv) queryEmbedding (entry_embedding entry)
           in Some \<lparr>documentId = entry_documentId entry, title = doc_title doc,
                    excerpt = extractRelevantExcerpt (doc_content doc) query 300,
                    relevanceScore = fmul (arith sv) similarity (Num 100)\<rparr>))"

definition semanticSearch ::
  "services \<Rightarrow> kb_state \<Rightarrow> string \<Rightarrow> int \<Rightarrow> js_error + search_result list" where
  "semanticSearch sv st query maxResults =
     (case embeddings_create sv query of
        Inl error \<Rightarrow> Inl error
      | Inr queryEmbedding \<Rightarrow>
          (let scoredResults =
                 List.map_filter (score_entry sv st query queryEmbedding) (vectorStore st)
           in Inr (slice0
                     (js_sort by_relevance
                        (filter (\<lambda>result. js_gt (relevanceScore result) (Num 20)) scoredResults))
                     maxResults)))"

text \<open>An entry of the vector store whose document is in the knowledge base.\<close>

definition resolvable :: "kb_state \<Rightarrow> vector_store_entry \<Rightarrow> bool" where
  "resolvable st entry = (find (\<lambda>d. doc_id d = entry_documentId entry) (knowledgeBase st) \<noteq> None)"

section \<open>index: loadKnowledgeBase\<close>























section \<open>index: the tool functions and their dispatcher\<close>

text \<open>
  The values that travel between the model and the tool functions are JSON values of a
  type \<open>'j\<close>. The record holds what the program does with them: \<^verbatim>\<open>JSON.parse\<close>,
  \<^verbatim>\<open>JSON.stringify\<close>, the object \<^verbatim>\<open>{error: message}\<close>, the destructuring of the arguments
  of the two knowledge-base tools (an exception when the value cannot be destructured),
  the objects \<^verbatim>\<open>{results}\<close> and \<^verbatim>\<open>{document}\<close>, and the four calendar functions, which
  call the calendar client and either return an object or throw.
\<close>

record 'j tools =
  json_parse :: "string \<Rightarrow> js_error + 'j"
  json_stringify :: "'j \<Rightarrow> string"
  error_object :: "string \<Rightarrow> 'j"
  search_args :: "'j \<Rightarrow> js_error + string \<times> int option"
  search_results_object :: "search_result list \<Rightarrow> 'j"
  document_args :: "'j \<Rightarrow> js_error + string"
  document_object :: "knowledge_document \<Rightarrow> 'j"
  checkAvailability :: "'j \<Rightarrow> js_error + 'j"
  createAppointment :: "'j \<Rightarrow> js_error + 'j"
  cancelAppointment :: "'j \<Rightarrow> js_error + 'j"
  listUpcomingAppointments :: "'j \<Rightarrow> js_error + 'j"

text \<open>
  \<^verbatim>\<open>searchKB\<close> on destructured arguments (\<open>maxResults\<close> defaults to 3): the semantic
  search, and the keyword search when the semantic search throws.
\<close>

definition searchKB ::
  "services \<Rightarrow> kb_state \<Rightarrow> string \<Rightarrow> int option \<Rightarrow> js_error + search_result list" where
  "searchKB sv st query maxResultsArg =
     (let maxResults = (case maxResultsArg of None \<Rightarrow> 3 | Some n \<Rightarrow> n) in
      case semanticSearch sv st query maxResults of
        Inr results \<Rightarrow> Inr results
      | Inl error \<Rightarrow> basicKeywordSearch (regexp_engine sv) query (knowledgeBase st) maxResults)"

text \<open>\<^verbatim>\<open>getDocument\<close>: the document, or the text of the \<^verbatim>\<open>error\<close> property it returns.\<close>

definition getDocument :: "kb_state \<Rightarrow> string \<Rightarrow> string + knowledge_document" where
  "getDocument st requestedId =
     (case find (\<lambda>doc. doc_id doc = requestedId) (knowledgeBase st) of
        None \<Rightarrow> Inl (''Document with ID '' @ requestedId @ '' not found'')
      | Some document \<Rightarrow> Inr document)"

definition callFunction ::
  "services \<Rightarrow> 'j tools \<Rightarrow> kb_state \<Rightarrow> string \<Rightarrow> 'j \<Rightarrow> js_error + 'j" where
  "callFunction sv tools st functionName args =
     (if functionName = ''searchKnowledgeBase'' then
        (case search_args tools args of
           Inl e \<Rightarrow> Inl e
         | Inr (query, maxResults) \<Rightarrow>
             (case searchKB sv st query maxResults of
                Inl e \<Rightarrow> Inl e
              | Inr results \<Rightarrow> Inr (search_results_object tools results)))
      else if functionName = ''getDocumentContent'' then
        (case document_args tools args of
           Inl e \<Rightarrow> Inl e
         | Inr requestedId \<Rightarrow>
             (case getDocument st requestedId of
                Inl not_found \<Rightarrow> Inr (error_object tools not_found)
              | Inr document \<Rightarrow> Inr (document_object tools document)))
      else if functionName = ''checkAvailability'' then checkAvailability tools args
      else if functionName = ''createAppointment'' then createAppointment tools args
      else if functionName = ''cancelAppointment'' then cancelAppointment tools args
      else if functionName = ''listUpcomingAppointments'' then listUpcomingAppointments tools args
      else Inl (Error (''Function '' @ functionName @ '' not implemented'')))"

text \<open>The names of the cases of the \<^verbatim>\<open>switch\<close> of \<^verbatim>\<open>callFunction\<close>.\<close>

definition registered_tools :: "string list" where
  "registered_tools =
     [''searchKnowledgeBase'', ''getDocumentContent'', ''checkAvailability'', ''createAppointment'',
      ''cancelAppointment'', ''listUpcomingAppointments'']"

section \<open>index: chatWithBot\<close>

definition user_message :: "string \<Rightarrow> message" where
  "user_message text = \<lparr>role = User, content = text, tool_call_id = None, tool_calls = None\<rparr>"

definition assistant_message :: "string \<Rightarrow> message" where
  "assistant_message text =
     \<lparr>role = Assistant, content = text, tool_call_id = None, tool_calls = None\<rparr>"

definition tool_message :: "string \<Rightarrow> string \<Rightarrow> message" where
  "tool_message call text =
     \<lparr>role = Tool, content = text, tool_call_id = Some call, tool_calls = None\<rparr>"

text \<open>
  The test on the user message: it holds a question mark, or one of the words of the
  regular expression under the flag \<open>i\<close>.
\<close>

definition question_words :: "string list" where
  "question_words =
     [''what'', ''how'', ''when'', ''where'', ''why'', ''can'', ''do'', ''is'', ''are'', ''policy'',
      ''policies'', ''appointment'', ''schedule'']"

definition looks_informational :: "string \<Rightarrow> bool" where
  "looks_informational userMessage =
     (js_includes userMessage ''?'' \<or> list_ex (js_includes (toLowerCase userMessage)) question_words)"

text \<open>
  The text added to \<^verbatim>\<open>relevantInfo\<close> for one search result: nothing when its document is
  gone; otherwise the content of the document under the title of its parent, when it
  names one (a non-empty \<^verbatim>\<open>parentId\<close>) that is in the knowledge base, or under its own.
\<close>

definition relevant_entry :: "kb_state \<Rightarrow> search_result \<Rightarrow> string" where
  "relevant_entry st result =
     (case find (\<lambda>d. doc_id d = documentId result) (knowledgeBase st) of
        None \<Rightarrow> []
      | Some doc \<Rightarrow>
          (let parentDoc =
                 (case metadata doc of
                    None \<Rightarrow> None
                  | Some md \<Rightarrow>
                      (case parentId md of
                         None \<Rightarrow> None
                       | Some p \<Rightarrow>
                           if p = [] then None
                           else find (\<lambda>d. doc_id d = p) (knowledgeBase st)));
               heading = (case parentDoc of None \<Rightarrow> doc_title doc | Some parent \<Rightarrow> doc_title parent)
           in ''From '' @ [CHR 0x22] @ heading @ [CHR 0x22] @ '':\<newline>'' @ doc_content doc
                @ ''\<newline>\<newline>''))"

text \<open>
  The proactive search of the knowledge base. An exception of \<^verbatim>\<open>semanticSearch\<close> is
  caught and logged: the turn goes on without the addendum.
\<close>

definition relevantInfo :: "services \<Rightarrow> kb_state \<Rightarrow> string \<Rightarrow> string" where
  "relevantInfo sv st userMessage =
     (if looks_informational userMessage then
        (case semanticSearch sv st userMessage 3 of
           Inl error \<Rightarrow> []
         | Inr searchResults \<Rightarrow>
             if length searchResults > 0
             then ''Based on our knowledge base, here is some relevant information:\<newline>\<newline>''
                    @ concat (map (relevant_entry st) searchResults)
             else [])
      else [])"

definition enhancedSystemPrompt :: "services \<Rightarrow> kb_state \<Rightarrow> string \<Rightarrow> string" where
  "enhancedSystemPrompt sv st userMessage =
     (let info = relevantInfo sv st userMessage in
      if info \<noteq> [] then systemPrompt sv @ ''\<newline>\<newline>RELEVANT KNOWLEDGE:\<newline>'' @ info
      else systemPrompt sv)"

text \<open>
  The array \<^verbatim>\<open>messages\<close> as first built: the system message, the last ten messages of the
  history (\<^verbatim>\<open>slice(-10)\<close>) and the user message.
\<close>

definition initial_messages :: "services \<Rightarrow> kb_state \<Rightarrow> string \<Rightarrow> message list \<Rightarrow> message list" where
  "initial_messages sv st userMessage conversationHistory =
     \<lparr>role = System, content = enhancedSystemPrompt sv st userMessage, tool_call_id = None,
       tool_calls = None\<rparr>
     # drop (length conversationHistory - 10) conversationHistory
     @ [user_message userMessage]"

text \<open>
  The body of \<^verbatim>\<open>for (const toolCall of toolCalls)\<close> for one call: the message it pushes.
  \<^verbatim>\<open>JSON.parse\<close> stands before the inner \<^verbatim>\<open>try\<close>, so its exception leaves the loop; an
  exception of \<^verbatim>\<open>callFunction\<close> is caught and becomes the content of the tool message.
\<close>

definition execute_tool_call ::
  "services \<Rightarrow> 'j tools \<Rightarrow> kb_state \<Rightarrow> tool_call \<Rightarrow> js_error + message" where
  "execute_tool_call sv tools st toolCall =
     (case json_parse tools (function_arguments toolCall) of
        Inl e \<Rightarrow> Inl e
      | Inr functionArgs \<Rightarrow>
          (case callFunction sv tools st (function_name toolCall) functionArgs of
             Inr functionResponse \<Rightarrow>
               Inr (tool_message (call_id toolCall) (json_stringify tools functionResponse))
           | Inl error \<Rightarrow>
               Inr (tool_message (call_id toolCall)
                      (json_stringify tools (error_object tools (error_message error))))))"

fun run_tool_calls ::
  "services \<Rightarrow> 'j tools \<Rightarrow> kb_state \<Rightarrow> tool_call list \<Rightarrow> message list \<Rightarrow> js_error + message list" where
  "run_tool_calls sv tools st [] messages = Inr messages"
| "run_tool_calls sv tools st (toolCall # toolCalls) messages =
     (case execute_tool_call sv tools st toolCall of
        Inl e \<Rightarrow> Inl e
      | Inr pushed \<Rightarrow> run_tool_calls sv tools st toolCalls (messages @ [pushed]))"

text \<open>\<^verbatim>\<open>message.content || ""\<close> for a content that may be null.\<close>

definition content_or_empty :: "completion_message \<Rightarrow> string" where
  "content_or_empty m = (case reply_content m of None \<Rightarrow> [] | Some c \<Rightarrow> c)"

text \<open>
  The \<^verbatim>\<open>try\<close> block of \<^verbatim>\<open>chatWithBot\<close>. A \<^verbatim>\<open>tool_calls\<close> that is present is truthy, also
  when it is the empty array.
\<close>

definition chatWithBot_try ::
  "services \<Rightarrow> 'j tools \<Rightarrow> kb_state \<Rightarrow> string \<Rightarrow> message list \<Rightarrow> js_error + chat_response" where
  "chatWithBot_try sv tools st userMessage conversationHistory =
     (let messages = initial_messages sv st userMessage conversationHistory in
      case map_throwing convertToOpenAIMessage messages of
        Inl e \<Rightarrow> Inl e
      | Inr openAIMessages \<Rightarrow>
      (case chat_completions_create sv
              \<lparr>request_messages = openAIMessages, request_tools = True\<rparr> of
        Inl e \<Rightarrow> Inl e
      | Inr responseMessage \<Rightarrow>
      (let messages1 = messages @ [assistant_message (content_or_empty responseMessage)] in
       case reply_tool_calls responseMessage of
         None \<Rightarrow>
           Inr \<lparr>response = content_or_empty responseMessage,
                updatedHistory = conversationHistory
                  @ [user_message userMessage,
                     assistant_message (content_or_empty responseMessage)]\<rparr>
       | Some toolCalls \<Rightarrow>
       (case run_tool_calls sv tools st toolCalls
               (messages1 @ [(assistant_message (content_or_empty responseMessage))
                               \<lparr>tool_calls := Some toolCalls\<rparr>]) of
         Inl e \<Rightarrow> Inl e
       | Inr messages2 \<Rightarrow>
       (case map_throwing convertToOpenAIMessage messages2 of
         Inl e \<Rightarrow> Inl e
       | Inr secondMessages \<Rightarrow>
       (case chat_completions_create sv
               \<lparr>request_messages = secondMessages, request_tools = False\<rparr> of
         Inl e \<Rightarrow> Inl e
       | Inr secondResponseMessage \<Rightarrow>
           Inr \<lparr>response = content_or_empty secondResponseMessage,
                updatedHistory = conversationHistory
                  @ [user_message userMessage,
                     assistant_message (content_or_empty secondResponseMessage)]\<rparr>))))))"

definition apology :: string where
  "apology = ''Sorry, I encountered an error processing your request.''"

definition chatWithBot ::
  "services \<Rightarrow> 'j tools \<Rightarrow> kb_state \<Rightarrow> string \<Rightarrow> message list \<Rightarrow> chat_response" where
  "chatWithBot sv tools st userMessage conversationHistory =
     (case chatWithBot_try sv tools st userMessage conversationHistory of
        Inl error \<Rightarrow> \<lparr>response = apology, updatedHistory = conversationHistory\<rparr>
      | Inr result \<Rightarrow> result)"

section \<open>Example services and state\<close>

text \<open>
  Arithmetic for the examples: exact on real numbers. The examples use it only where the
  exact result is a double, so that double arithmetic gives the same values.
\<close>

definition example_ops :: float_ops where
  "example_ops =
     \<lparr>fadd = (\<lambda>a b. case (a, b) of (Num x, Num y) \<Rightarrow> Num (x + y) | _ \<Rightarrow> NaN),
      fmul = (\<lambda>a b. case (a, b) of (Num x, Num y) \<Rightarrow> Num (x * y) | _ \<Rightarrow> NaN),
      fdiv = (\<lambda>a b. case (a, b) of
                       (Num x, Num y) \<Rightarrow>
                         if y \<noteq> 0 then Num (x / y)
                         else if x > 0 then PosInf else if x < 0 then NegInf else NaN
                     | _ \<Rightarrow> NaN),
      fsqrt = (\<lambda>a. case a of Num x \<Rightarrow> if x < 0 then NaN else Num (sqrt x) | PosInf \<Rightarrow> PosInf | _ \<Rightarrow> NaN)\<rparr>"

definition example_services :: services where
  "example_services =
     \<lparr>embeddings_create = (\<lambda>input. Inr [Num 1, Num 0, Num 0, Num 0]),
      chat_completions_create = (\<lambda>request. Inr \<lparr>reply_content = Some ''ok'', reply_tool_calls = None\<rparr>),
      regexp_engine = (\<lambda>pattern text. Inr 0),
      arith = example_ops,
      systemPrompt = ''You are a scheduling assistant.''\<rparr>"

definition example_state :: kb_state where
  "example_state =
     \<lparr>knowledgeBase =
        [\<lparr>doc_id = ''a.md'', doc_title = ''a'', doc_content = ''Alpha.'', metadata = None\<rparr>,
         \<lparr>doc_id = ''b.md'', doc_title = ''b'', doc_content = ''Beta.'', metadata = None\<rparr>,
         \<lparr>doc_id = ''c.md'', doc_title = ''c'', doc_content = ''Gamma.'', metadata = None\<rparr>],
      vectorStore =
        [\<lparr>entry_documentId = ''b.md'', entry_embedding = [Num 1, Num 1, Num 1, Num 1]\<rparr>,
         \<lparr>entry_documentId = ''gone.md'', entry_embedding = [Num 1, Num 0, Num 0, Num 0]\<rparr>,
         \<lparr>entry_documentId = ''c.md'', entry_embedding = [Num 0, Num 1, Num 0, Num 0]\<rparr>,
         \<lparr>entry_documentId = ''a.md'', entry_embedding = [Num 1, Num 0, Num 0, Num 0]\<rparr>]\<rparr>"

text \<open>
  Tools for the examples, with JSON values as their texts: a text parses when it starts
  with \<open>{\<close> and ends with \<open>}\<close>; two of the calendar functions fail.
\<close>

definition example_tools :: "string tools" where
  "example_tools =
     \<lparr>json_parse = (\<lambda>text. if text \<noteq> [] \<and> hd text = CHR ''{'' \<and> last text = CHR ''}'' then Inr text
                          else Inl (SyntaxError ''Unexpected end of JSON input'')),
      json_stringify = (\<lambda>value. value),
      error_object = (\<lambda>text. ''{error:'' @ text @ ''}''),
      search_args = (\<lambda>args. Inr (''policy'', None)),
      search_results_object = (\<lambda>results. ''{results:['' @ join '','' (map documentId results) @ '']}''),
      document_args = (\<lambda>args. Inr ''a.md''),
      document_object = (\<lambda>doc. ''{document:'' @ doc_id doc @ ''}''),
      checkAvailability = (\<lambda>args. Inl (Error ''Failed to check availability'')),
      createAppointment = (\<lambda>args. Inr ''{success:true}''),
      cancelAppointment = (\<lambda>args. Inl (Error ''Failed to cancel appointment'')),
      listUpcomingAppointments = (\<lambda>args. Inr ''{events:[],count:0}'')\<rparr>"

text \<open>
  Services whose first completion asks for the given tool calls and whose second
  completion answers \<open>Done.\<close>; a tool call; services without the embedding service, and
  without the completion service.
\<close>

definition tool_turn_services :: "tool_call list \<Rightarrow> services" where
  "tool_turn_services calls =
     example_services
       \<lparr>chat_completions_create :=
          (\<lambda>request.
             if request_tools request
             then Inr \<lparr>reply_content = Some ''One moment.'', reply_tool_calls = Some calls\<rparr>
             else Inr \<lparr>reply_content = Some ''Done.'', reply_tool_calls = None\<rparr>)\<rparr>"

definition example_call :: "string \<Rightarrow> string \<Rightarrow> string \<Rightarrow> tool_call" where
  "example_call i f a = \<lparr>call_id = i, function_name = f, function_arguments = a\<rparr>"

definition offline_embedding :: services where
  "offline_embedding =
     example_services\<lparr>embeddings_create := (\<lambda>input. Inl (Error ''connect ECONNREFUSED''))\<rparr>"

definition offline_chat :: services where
  "offline_chat =
     example_services\<lparr>chat_completions_create := (\<lambda>request. Inl (Error ''Service unavailable''))\<rparr>"





section \<open>Properties of the chunker\<close>

lemma join_snoc: "join sep (g @ [p]) = join sep g @ (if g \<noteq> [] then sep else []) @ p"
  by (induction sep g rule: join.induct) auto

lemma join_eq_Nil: "[] \<notin> set g \<Longrightarrow> (join sep g = []) = (g = [])"
  by (induction sep g rule: join.induct) auto

lemma join_append:
  "xs \<noteq> [] \<Longrightarrow> ys \<noteq> [] \<Longrightarrow> join sep (xs @ ys) = join sep xs @ sep @ join sep ys"
proof (induction sep xs rule: join.induct)
  case (2 sep x)
  then show ?case by (cases ys) auto
qed auto

lemma join_map_join:
  "[] \<notin> set gs \<Longrightarrow> join sep (map (join sep) gs) = join sep (concat gs)"
proof (induction gs)
  case Nil
  show ?case by simp
next
  case (Cons g gs)
  show ?case
  proof (cases gs)
    case Nil
    then show ?thesis by simp
  next
    case (Cons h hs)
    from Cons.prems have g: "g \<noteq> []" and rest: "[] \<notin> set gs" by auto
    from Cons rest have ne: "concat gs \<noteq> []" by auto
    have "join sep (map (join sep) (g # gs)) = join sep g @ sep @ join sep (map (join sep) gs)"
      using Cons by simp
    also have "\<dots> = join sep g @ sep @ join sep (concat gs)"
      using Cons.IH rest by simp
    also have "\<dots> = join sep (g @ concat gs)"
      using join_append [OF g ne] by simp
    finally show ?thesis by simp
  qed
qed

lemma concat_chunk_groups: "concat (chunk_groups m ps g) = g @ ps"
  by (induction ps arbitrary: g) auto

lemma chunk_groups_nonempty: "[] \<notin> set (chunk_groups m ps g)"
  by (induction ps arbitrary: g) auto

lemma chunk_loop_groups:
  "[] \<notin> set g \<Longrightarrow> [] \<notin> set ps \<Longrightarrow>
   chunk_loop m ps (chunks, join ''\<newline>\<newline>'' g) = (chunks', cur') \<Longrightarrow>
   (if cur' \<noteq> [] then chunks' @ [cur'] else chunks') =
     chunks @ map (join ''\<newline>\<newline>'') (chunk_groups m ps g)"
proof (induction ps arbitrary: g chunks)
  case Nil
  then show ?case by (auto simp: join_eq_Nil)
next
  case (Cons p ps)
  from Cons.prems have p: "p \<noteq> []" and ps: "[] \<notin> set ps" by auto
  show ?case
  proof (cases "int (length (join ''\<newline>\<newline>'' g @ p)) > m \<and> g \<noteq> []")
    case True
    with Cons.prems(1) have
      "chunk_loop m ps (chunks @ [join ''\<newline>\<newline>'' g], join ''\<newline>\<newline>'' [p]) = (chunks', cur')"
      using Cons.prems(3) by (simp add: join_eq_Nil)
    from Cons.IH [OF _ ps this] p True show ?thesis by simp
  next
    case False
    with Cons.prems(1) have
      "chunk_loop m ps (chunks, join ''\<newline>\<newline>'' (g @ [p])) = (chunks', cur')"
      using Cons.prems(3) by (auto simp: join_eq_Nil join_snoc)
    from Cons.IH [OF _ ps this] Cons.prems(1) p False show ?thesis by auto
  qed
qed

lemma chunkContent_groups:
  assumes "\<not> int (length c) \<le> m" and "[] \<notin> set (js_split blank_line [] c)"
  shows "chunkContent c m =
           map (join ''\<newline>\<newline>'') (chunk_groups m (js_split blank_line [] c) [])"
proof -
  obtain chunks' cur' where
    l: "chunk_loop m (js_split blank_line [] c) ([], join ''\<newline>\<newline>'' []) = (chunks', cur')"
    by (cases "chunk_loop m (js_split blank_line [] c) ([], join ''\<newline>\<newline>'' [])") auto
  from chunk_loop_groups [OF _ assms(2) l] l assms(1) show ?thesis
    by (simp add: chunkContent_def)
qed

text \<open>
  C6 (fails on the code). Claim: a segment accumulated from more than one paragraph is never
  longer than \<open>maxChunkLength\<close>. The loop compares \<^verbatim>\<open>(currentChunk + paragraph).length\<close>
  with the bound and then appends the paragraph after a two-character separator that the
  comparison left out: for the content \<^verbatim>\<open>"a\n\nb\n\nc"\<close> and the bound 3 the paragraphs are
  \<open>a\<close>, \<open>b\<close>, \<open>c\<close> and the first segment, made of two paragraphs, has length 4.
\<close>

theorem chunkContent_separator_not_counted:
  "js_split blank_line [] ''a\<newline>\<newline>b\<newline>\<newline>c'' = [''a'', ''b'', ''c''] \<and>
   chunkContent ''a\<newline>\<newline>b\<newline>\<newline>c'' 3 = [join ''\<newline>\<newline>'' [''a'', ''b''], ''c''] \<and>
   int (length (join ''\<newline>\<newline>'' [''a'', ''b''])) > 3"
  by code_simp

text \<open>
  C7 as stated fails: joining the segments with \<^verbatim>\<open>"\n\n"\<close> does not give back a content
  whose blank-line separator holds other white space.
\<close>

theorem chunkContent_join_counterexample:
  "join ''\<newline>\<newline>'' (chunkContent ''a\<newline> \<newline>b'' 3) \<noteq> ''a\<newline> \<newline>b''"
  by code_simp

text \<open>
  C7 (amended). A content no longer than the bound is returned as the single segment.
  Otherwise, when no paragraph of \<^verbatim>\<open>content.split(/\n\s*\n/)\<close> is empty, the segments are
  the \<^verbatim>\<open>"\n\n"\<close>-joins of consecutive non-empty runs of whole paragraphs, in order (no
  boundary falls inside a paragraph), and joining the segments with \<^verbatim>\<open>"\n\n"\<close> gives the
  paragraphs joined with \<^verbatim>\<open>"\n\n"\<close>: the content with every blank-line separator
  rewritten to \<^verbatim>\<open>"\n\n"\<close>, which is the content itself exactly when its separators are
  all \<^verbatim>\<open>"\n\n"\<close>.
\<close>

theorem chunkContent_paragraphs:
  "(int (length c) \<le> m \<longrightarrow> chunkContent c m = [c]) \<and>
   (\<not> int (length c) \<le> m \<and> [] \<notin> set (js_split blank_line [] c) \<longrightarrow>
      join ''\<newline>\<newline>'' (chunkContent c m) = join ''\<newline>\<newline>'' (js_split blank_line [] c) \<and>
      (join ''\<newline>\<newline>'' (chunkContent c m) = c) =
        (join ''\<newline>\<newline>'' (js_split blank_line [] c) = c) \<and>
      (\<exists>gs. concat gs = js_split blank_line [] c \<and> [] \<notin> set gs \<and>
            chunkContent c m = map (join ''\<newline>\<newline>'') gs))"
proof (intro conjI impI)
  assume "int (length c) \<le> m"
  then show "chunkContent c m = [c]" by (simp add: chunkContent_def)
next
  assume a: "\<not> int (length c) \<le> m \<and> [] \<notin> set (js_split blank_line [] c)"
  let ?gs = "chunk_groups m (js_split blank_line [] c) []"
  from a have eq: "chunkContent c m = map (join ''\<newline>\<newline>'') ?gs"
    by (simp add: chunkContent_groups)
  show j: "join ''\<newline>\<newline>'' (chunkContent c m) = join ''\<newline>\<newline>'' (js_split blank_line [] c)"
    by (simp add: eq join_map_join chunk_groups_nonempty concat_chunk_groups)
  show "(join ''\<newline>\<newline>'' (chunkContent c m) = c) =
      (join ''\<newline>\<newline>'' (js_split blank_line [] c) = c)"
    by (simp only: j)
  show "\<exists>gs. concat gs = js_split blank_line [] c \<and> [] \<notin> set gs \<and>
          chunkContent c m = map (join ''\<newline>\<newline>'') gs"
    using eq chunk_groups_nonempty [of m "js_split blank_line [] c" "[]"]
      concat_chunk_groups [of m "js_split blank_line [] c" "[]"] by auto
qed

theorem chunkContent_paragraphs_witness:
  "chunkContent ''ab'' 5 = [''ab''] \<and>
   join ''\<newline>\<newline>'' (chunkContent ''a\<newline> \<newline>b\<newline>\<newline>c'' 4) = ''a\<newline>\<newline>b\<newline>\<newline>c'' \<and>
   (\<exists>gs. concat gs = [''a'', ''b'', ''c''] \<and> [] \<notin> set gs \<and>
         chunkContent ''a\<newline> \<newline>b\<newline>\<newline>c'' 4 = map (join ''\<newline>\<newline>'') gs)"
proof -
  let ?c = "''a\<newline> \<newline>b\<newline>\<newline>c''"
  have short: "int (length ''ab'') \<le> 5"
    by simp
  have ps: "js_split blank_line [] ?c = [''a'', ''b'', ''c'']"
    by code_simp
  have long: "\<not> int (length ?c) \<le> 4 \<and> [] \<notin> set (js_split blank_line [] ?c)"
    unfolding ps by simp
  have "chunkContent ''ab'' 5 = [''ab'']"
    using chunkContent_paragraphs [of "''ab''" 5] short by blast
  moreover have
    "join ''\<newline>\<newline>'' (chunkContent ?c 4) = join ''\<newline>\<newline>'' (js_split blank_line [] ?c) \<and>
     (\<exists>gs. concat gs = js_split blank_line [] ?c \<and> [] \<notin> set gs \<and>
           chunkContent ?c 4 = map (join ''\<newline>\<newline>'') gs)"
    using chunkContent_paragraphs [of ?c 4] long by blast
  ultimately show ?thesis
    unfolding ps by simp
qed

section \<open>Properties of the keyword search\<close>

text \<open>
  C3 (fails on the code). Claim: the score of a document is defined for every query token,
  also one with regular-expression metacharacters, and counts the occurrences of the token
  as a string. The code compiles each keyword with \<^verbatim>\<open>new RegExp(keyword, 'g')\<close> without
  escaping it: for the query \<^verbatim>\<open>c++\<close> and any non-empty list of documents the constructor
  throws a SyntaxError and \<^verbatim>\<open>basicKeywordSearch\<close> returns nothing, whatever the engine does
  on other patterns.
\<close>

theorem basicKeywordSearch_metacharacter_throws:
  "basicKeywordSearch re ''c++'' (d # ds) n =
     Inl (SyntaxError ''Invalid regular expression: /c++/: Nothing to repeat'')"
proof -
  have k: "filter (\<lambda>k. length k > 2) (js_split space_run [] (toLowerCase ''c++'')) = [''c++'']"
    by code_simp
  have e: "expand_keywords [''c++''] = [''c++'']"
    by code_simp
  have r: "regexp_match_count re ''c++'' c =
             Inl (SyntaxError ''Invalid regular expression: /c++/: Nothing to repeat'')" for c
    by (simp add: regexp_match_count_def syntax_character_def quantifier_character_def)
  show ?thesis
    by (simp add: basicKeywordSearch_def k e score_document_def r)
qed

section \<open>Properties of the semantic search\<close>

lemma example_similarities:
  "calculateCosineSimilarity example_ops [Num 1, Num 0, Num 0, Num 0] [Num 1, Num 0, Num 0, Num 0] = Num 1"
  "calculateCosineSimilarity example_ops [Num 1, Num 0, Num 0, Num 0] [Num 1, Num 1, Num 1, Num 1] = Num (1 / 2)"
  "calculateCosineSimilarity example_ops [Num 1, Num 0, Num 0, Num 0] [Num 0, Num 1, Num 0, Num 0] = Num 0"
  by (simp_all add: calculateCosineSimilarity_def example_ops_def)

lemma example_search:
  "semanticSearch example_services example_state ''q'' n =
     Inr (slice0
       [\<lparr>documentId = ''a.md'', title = ''a'', excerpt = extractRelevantExcerpt ''Alpha.'' ''q'' 300,
          relevanceScore = Num 100\<rparr>,
        \<lparr>documentId = ''b.md'', title = ''b'', excerpt = extractRelevantExcerpt ''Beta.'' ''q'' 300,
          relevanceScore = Num 50\<rparr>] n)"
  by (simp add: semanticSearch_def example_services_def example_state_def score_entry_def
      List.map_filter_simps example_similarities js_sort_def by_relevance_def)
     (simp add: example_ops_def)

lemma set_sort_insert: "set (sort_insert c x ys) = insert x (set ys)"
  by (induction ys) auto

lemma set_js_sort: "set (js_sort c xs) = set xs"
  by (induction xs) (auto simp: js_sort_def set_sort_insert)

lemma length_sort_insert: "length (sort_insert c x ys) = Suc (length ys)"
  by (induction ys) auto

lemma length_js_sort: "length (js_sort c xs) = length xs"
  by (induction xs) (auto simp: js_sort_def length_sort_insert)

lemma js_ge_trans: "js_ge a b \<Longrightarrow> js_ge b c \<Longrightarrow> js_ge a c"
  by (cases a; cases b; cases c) auto

lemma by_relevance_after:
  "js_gt (relevanceScore x) (Num t) \<Longrightarrow> js_gt (relevanceScore y) (Num t) \<Longrightarrow>
   js_gt (by_relevance x y) (Num 0) \<Longrightarrow> js_ge (relevanceScore y) (relevanceScore x)"
  by (cases "relevanceScore x"; cases "relevanceScore y") (auto simp: by_relevance_def)

lemma by_relevance_before:
  "js_gt (relevanceScore x) (Num t) \<Longrightarrow> js_gt (relevanceScore y) (Num t) \<Longrightarrow>
   \<not> js_gt (by_relevance x y) (Num 0) \<Longrightarrow> js_ge (relevanceScore x) (relevanceScore y)"
  by (cases "relevanceScore x"; cases "relevanceScore y") (auto simp: by_relevance_def)

lemma sorted_sort_insert:
  assumes "\<forall>y\<in>set ys. js_gt (relevanceScore y) (Num t)" and "js_gt (relevanceScore x) (Num t)"
    and "sorted_wrt (\<lambda>a b. js_ge (relevanceScore a) (relevanceScore b)) ys"
  shows "sorted_wrt (\<lambda>a b. js_ge (relevanceScore a) (relevanceScore b))
           (sort_insert by_relevance x ys)"
  using assms
proof (induction ys)
  case Nil
  show ?case by simp
next
  case (Cons y ys)
  from Cons.prems have y: "js_gt (relevanceScore y) (Num t)" by simp
  show ?case
  proof (cases "js_gt (by_relevance x y) (Num 0)")
    case True
    have "js_ge (relevanceScore y) (relevanceScore x)"
      using by_relevance_after [OF Cons.prems(2) y True] .
    moreover have "sorted_wrt (\<lambda>a b. js_ge (relevanceScore a) (relevanceScore b))
                     (sort_insert by_relevance x ys)"
      using Cons by simp
    ultimately show ?thesis
      using True Cons.prems(3) by (auto simp: set_sort_insert)
  next
    case False
    have xy: "js_ge (relevanceScore x) (relevanceScore y)"
      using by_relevance_before [OF Cons.prems(2) y False] .
    have "js_ge (relevanceScore x) (relevanceScore z)" if "z \<in> set ys" for z
      using that Cons.prems(3) xy js_ge_trans by auto
    then show ?thesis
      using False xy Cons.prems(3) by auto
  qed
qed

lemma sorted_js_sort:
  "\<forall>y\<in>set xs. js_gt (relevanceScore y) (Num t) \<Longrightarrow>
   sorted_wrt (\<lambda>a b. js_ge (relevanceScore a) (relevanceScore b)) (js_sort by_relevance xs)"
proof (induction xs)
  case Nil
  show ?case by (simp add: js_sort_def)
next
  case (Cons x xs)
  then have "sorted_wrt (\<lambda>a b. js_ge (relevanceScore a) (relevanceScore b))
               (sort_insert by_relevance x (js_sort by_relevance xs))"
    by (intro sorted_sort_insert [where t = t]) (auto simp: set_js_sort)
  then show ?case by (simp add: js_sort_def)
qed

lemma set_slice0: "set (slice0 xs n) \<subseteq> set xs"
  by (auto simp: slice0_def dest: in_set_takeD)

lemma sorted_slice0: "sorted_wrt P xs \<Longrightarrow> sorted_wrt P (slice0 xs n)"
  by (simp add: slice0_def sorted_wrt_take)

lemma length_slice0: "0 \<le> n \<Longrightarrow> int (length (slice0 xs n)) \<le> n"
  by (simp add: slice0_def)

lemma score_entry_Some:
  "score_entry sv st query q entry = Some r \<Longrightarrow>
   documentId r = entry_documentId entry \<and>
   (\<exists>d\<in>set (knowledgeBase st). doc_id d = documentId r)"
  by (auto simp: score_entry_def Let_def find_Some_iff split: option.splits)

lemma score_entry_vectorStore [simp]:
  "score_entry sv (st\<lparr>vectorStore := vs\<rparr>) query q = score_entry sv st query q"
  by (rule ext) (simp add: score_entry_def)

lemma map_filter_filter_Some:
  "(\<And>x. (f x \<noteq> None) = P x) \<Longrightarrow> List.map_filter f (filter P xs) = List.map_filter f xs"
proof (induction xs)
  case Nil
  show ?case by simp
next
  case (Cons x xs)
  then show ?case
    by (cases "f x") (auto simp: List.map_filter_simps)
qed

lemma score_entry_None: "(score_entry sv st query q entry \<noteq> None) = resolvable st entry"
  by (auto simp: score_entry_def resolvable_def Let_def split: option.splits)

text \<open>
  C2 as stated fails for a negative \<open>maxResults\<close>: \<^verbatim>\<open>slice(0, -1)\<close> drops the last
  element only, so two results above the floor leave one, and 1 is not at most -1.
\<close>

theorem semanticSearch_negative_maxResults:
  "\<exists>results. semanticSearch example_services example_state ''q'' (- 1) = Inr results \<and>
      \<not> int (length results) \<le> - 1"
  by (simp add: example_search slice0_def)

text \<open>
  C2 (amended). When the embedding of the query is obtained, \<^verbatim>\<open>semanticSearch\<close> returns a
  list (no error): every result has a score greater than 20, the list is in descending
  order of score, its length is at most \<open>maxResults\<close> when \<open>maxResults\<close> is not negative,
  every result belongs to a document of the knowledge base, and the entries of the vector
  store without such a document change nothing: the search over the store without them
  returns the same list.
\<close>

theorem semanticSearch_results:
  assumes "embeddings_create sv query = Inr q"
  shows "\<exists>results. semanticSearch sv st query maxResults = Inr results \<and>
           (\<forall>r\<in>set results. js_gt (relevanceScore r) (Num 20)) \<and>
           sorted_wrt (\<lambda>a b. js_ge (relevanceScore a) (relevanceScore b)) results \<and>
           (0 \<le> maxResults \<longrightarrow> int (length results) \<le> maxResults) \<and>
           (\<forall>r\<in>set results. \<exists>d\<in>set (knowledgeBase st). doc_id d = documentId r) \<and>
           semanticSearch sv (st\<lparr>vectorStore := filter (resolvable st) (vectorStore st)\<rparr>)
             query maxResults = Inr results"
proof -
  let ?scored = "List.map_filter (score_entry sv st query q) (vectorStore st)"
  let ?kept = "filter (\<lambda>result. js_gt (relevanceScore result) (Num 20)) ?scored"
  let ?results = "slice0 (js_sort by_relevance ?kept) maxResults"
  have eq: "semanticSearch sv st query maxResults = Inr ?results"
    using assms by (simp add: semanticSearch_def)
  have sub: "set ?results \<subseteq> set ?kept"
    using set_slice0 [of "js_sort by_relevance ?kept" maxResults] by (simp add: set_js_sort)
  have floor: "\<forall>r\<in>set ?results. js_gt (relevanceScore r) (Num 20)"
    using sub by auto
  have sorted: "sorted_wrt (\<lambda>a b. js_ge (relevanceScore a) (relevanceScore b)) ?results"
    by (intro sorted_slice0 sorted_js_sort [where t = 20]) simp
  have len: "0 \<le> maxResults \<longrightarrow> int (length ?results) \<le> maxResults"
    by (simp add: length_slice0)
  have docs: "\<forall>r\<in>set ?results. \<exists>d\<in>set (knowledgeBase st). doc_id d = documentId r"
  proof
    fix r assume "r \<in> set ?results"
    with sub have "r \<in> set ?scored" by auto
    then obtain entry where "score_entry sv st query q entry = Some r"
      by (auto simp: List.map_filter_def)
    then show "\<exists>d\<in>set (knowledgeBase st). doc_id d = documentId r"
      using score_entry_Some by blast
  qed
  have "List.map_filter (score_entry sv st query q) (filter (resolvable st) (vectorStore st)) = ?scored"
    by (rule map_filter_filter_Some) (rule score_entry_None)
  then have dropped:
    "semanticSearch sv (st\<lparr>vectorStore := filter (resolvable st) (vectorStore st)\<rparr>) query maxResults
       = Inr ?results"
    using assms by (simp add: semanticSearch_def)
  from eq floor sorted len docs dropped show ?thesis by blast
qed

theorem semanticSearch_results_witness:
  "embeddings_create example_services ''q'' = Inr [Num 1, Num 0, Num 0, Num 0] \<and>
   (\<exists>results. semanticSearch example_services example_state ''q'' 1 = Inr results \<and>
      length results = 1 \<and> map documentId results = [''a.md''] \<and>
      map relevanceScore results = [Num 100] \<and>
      semanticSearch example_services
        (example_state\<lparr>vectorStore := filter (resolvable example_state) (vectorStore example_state)\<rparr>)
        ''q'' 1 = Inr results)"
proof -
  have e: "embeddings_create example_services ''q'' = Inr [Num 1, Num 0, Num 0, Num 0]"
    by (simp add: example_services_def)
  from semanticSearch_results [OF e, of example_state 1] e show ?thesis
    by (auto simp: example_search slice0_def)
qed


section \<open>Properties of the tool loop and of the turn\<close>

lemma map_throwing_append:
  "map_throwing f (xs @ ys) =
     (case map_throwing f xs of
        Inl e \<Rightarrow> Inl e
      | Inr a \<Rightarrow> (case map_throwing f ys of Inl e \<Rightarrow> Inl e | Inr b \<Rightarrow> Inr (a @ b)))"
  by (induction xs) (auto split: sum.splits)

lemma map_throwing_Inl:
  "map_throwing f xs = Inl e \<Longrightarrow> \<exists>x\<in>set xs. f x = Inl e"
  by (induction xs) (auto split: sum.splits)

lemma run_tool_calls_map:
  "run_tool_calls sv tools st tcs ms =
     (case map_throwing (execute_tool_call sv tools st) tcs of
        Inl e \<Rightarrow> Inl e
      | Inr pushed \<Rightarrow> Inr (ms @ pushed))"
  by (induction tcs arbitrary: ms) (auto split: sum.splits)

lemma execute_tool_call_shape:
  "execute_tool_call sv tools st tc = Inr m \<Longrightarrow> \<exists>body. m = tool_message (call_id tc) body"
  by (auto simp: execute_tool_call_def split: sum.splits)

lemma execute_all:
  "\<forall>tc\<in>set tcs. \<exists>args. json_parse tools (function_arguments tc) = Inr args \<Longrightarrow>
   \<exists>pushed. map_throwing (execute_tool_call sv tools st) tcs = Inr pushed \<and>
      list_all2 (\<lambda>tc m. execute_tool_call sv tools st tc = Inr m) tcs pushed"
proof (induction tcs)
  case Nil
  show ?case by simp
next
  case (Cons tc tcs)
  then obtain pushed where p: "map_throwing (execute_tool_call sv tools st) tcs = Inr pushed"
    "list_all2 (\<lambda>tc m. execute_tool_call sv tools st tc = Inr m) tcs pushed"
    by auto
  from Cons.prems obtain args where "json_parse tools (function_arguments tc) = Inr args"
    by auto
  then obtain m where "execute_tool_call sv tools st tc = Inr m"
    by (cases "callFunction sv tools st (function_name tc) args")
      (auto simp: execute_tool_call_def)
  with p show ?case by auto
qed

lemma convert_pushed:
  "list_all2 (\<lambda>tc m. execute_tool_call sv tools st tc = Inr m) tcs pushed \<Longrightarrow>
   \<forall>tc\<in>set tcs. call_id tc \<noteq> [] \<Longrightarrow>
   map_throwing convertToOpenAIMessage pushed =
     Inr (map2 (\<lambda>tc m. ToolParam (content m) (call_id tc)) tcs pushed)"
proof (induction rule: list_all2_induct)
  case Nil
  show ?case by simp
next
  case (Cons tc tcs m pushed)
  from Cons.hyps(1) obtain body where "m = tool_message (call_id tc) body"
    using execute_tool_call_shape by blast
  with Cons show ?case
    by (simp add: convertToOpenAIMessage_def tool_message_def)
qed

lemma convert_assistant:
  "convertToOpenAIMessage ((assistant_message c)\<lparr>tool_calls := t\<rparr>) = Inr (AssistantParam c)"
  "convertToOpenAIMessage (assistant_message c) = Inr (AssistantParam c)"
  by (simp_all add: convertToOpenAIMessage_def assistant_message_def)

lemma chatWithBot_try_tool_branch:
  assumes conv: "map_throwing convertToOpenAIMessage (initial_messages sv st u h) = Inr ps"
    and first: "chat_completions_create sv \<lparr>request_messages = ps, request_tools = True\<rparr> = Inr reply"
    and calls: "reply_tool_calls reply = Some tcs"
    and exec: "map_throwing (execute_tool_call sv tools st) tcs = Inr pushed"
    and tool_conv: "map_throwing convertToOpenAIMessage pushed = Inr params"
  shows "chatWithBot_try sv tools st u h =
           (case chat_completions_create sv
                   \<lparr>request_messages =
                      ps @ [AssistantParam (content_or_empty reply),
                            AssistantParam (content_or_empty reply)] @ params,
                    request_tools = False\<rparr> of
              Inl e \<Rightarrow> Inl e
            | Inr second \<Rightarrow>
                Inr \<lparr>response = content_or_empty second,
                     updatedHistory =
                       h @ [user_message u, assistant_message (content_or_empty second)]\<rparr>)"
  using assms
  by (simp add: chatWithBot_try_def Let_def run_tool_calls_map map_throwing_append
      convert_assistant split: sum.splits)

lemma looks_informational_examples:
  "looks_informational ''What is the policy?''" "\<not> looks_informational ''Book it''"
  by code_simp+

lemma execute_tool_call_Inl:
  "(execute_tool_call sv tools st tc = Inl e) = (json_parse tools (function_arguments tc) = Inl e)"
  by (auto simp: execute_tool_call_def split: sum.splits)

lemma callFunction_unregistered:
  "functionName \<notin> set registered_tools \<Longrightarrow>
   callFunction sv tools st functionName args =
     Inl (Error (''Function '' @ functionName @ '' not implemented''))"
  by (simp add: callFunction_def registered_tools_def)

lemma execute_tool_call_throwing:
  "json_parse tools (function_arguments tc) = Inr args \<Longrightarrow>
   callFunction sv tools st (function_name tc) args = Inl err \<Longrightarrow>
   execute_tool_call sv tools st tc =
     Inr (tool_message (call_id tc) (json_stringify tools (error_object tools (error_message err))))"
  by (simp add: execute_tool_call_def)

lemma execute_tool_call_returning:
  "json_parse tools (function_arguments tc) = Inr args \<Longrightarrow>
   callFunction sv tools st (function_name tc) args = Inr result \<Longrightarrow>
   execute_tool_call sv tools st tc = Inr (tool_message (call_id tc) (json_stringify tools result))"
  by (simp add: execute_tool_call_def)

lemma tool_turn_reaches_second_request:
  assumes conv: "map_throwing convertToOpenAIMessage (initial_messages sv st u h) = Inr ps"
    and first: "chat_completions_create sv \<lparr>request_messages = ps, request_tools = True\<rparr> = Inr reply"
    and calls: "reply_tool_calls reply = Some tcs"
    and parse: "\<forall>tc\<in>set tcs. \<exists>args. json_parse tools (function_arguments tc) = Inr args"
    and ids: "\<forall>tc\<in>set tcs. call_id tc \<noteq> []"
  shows "\<exists>pushed.
           list_all2 (\<lambda>tc m. execute_tool_call sv tools st tc = Inr m) tcs pushed \<and>
           chatWithBot_try sv tools st u h =
             (case chat_completions_create sv
                     \<lparr>request_messages =
                        ps @ [AssistantParam (content_or_empty reply),
                              AssistantParam (content_or_empty reply)]
                          @ map2 (\<lambda>tc m. ToolParam (content m) (call_id tc)) tcs pushed,
                      request_tools = False\<rparr> of
                Inl e \<Rightarrow> Inl e
              | Inr second \<Rightarrow>
                  Inr \<lparr>response = content_or_empty second,
                       updatedHistory =
                         h @ [user_message u, assistant_message (content_or_empty second)]\<rparr>)"
proof -
  from execute_all [OF parse] obtain pushed where
    p: "map_throwing (execute_tool_call sv tools st) tcs = Inr pushed"
       "list_all2 (\<lambda>tc m. execute_tool_call sv tools st tc = Inr m) tcs pushed"
    by blast
  from chatWithBot_try_tool_branch [OF conv first calls p(1) convert_pushed [OF p(2) ids]] p(2)
  show ?thesis by blast
qed

lemma tool_turn_outcome:
  assumes conv: "map_throwing convertToOpenAIMessage (initial_messages sv st u h) = Inr ps"
    and first: "chat_completions_create sv \<lparr>request_messages = ps, request_tools = True\<rparr> = Inr reply"
    and calls: "reply_tool_calls reply = Some tcs"
    and parse: "\<forall>tc\<in>set tcs. \<exists>args. json_parse tools (function_arguments tc) = Inr args"
    and ids: "\<forall>tc\<in>set tcs. call_id tc \<noteq> []"
  shows "\<exists>pushed.
           list_all2 (\<lambda>tc m. execute_tool_call sv tools st tc = Inr m) tcs pushed \<and>
           chatWithBot_try sv tools st u h =
             (case chat_completions_create sv
                     \<lparr>request_messages =
                        ps @ [AssistantParam (content_or_empty reply),
                              AssistantParam (content_or_empty reply)]
                          @ map2 (\<lambda>tc m. ToolParam (content m) (call_id tc)) tcs pushed,
                      request_tools = False\<rparr> of
                Inl e \<Rightarrow> Inl e
              | Inr second \<Rightarrow>
                  Inr \<lparr>response = content_or_empty second,
                       updatedHistory =
                         h @ [user_message u, assistant_message (content_or_empty second)]\<rparr>) \<and>
           chatWithBot sv tools st u h =
             (case chat_completions_create sv
                     \<lparr>request_messages =
                        ps @ [AssistantParam (content_or_empty reply),
                              AssistantParam (content_or_empty reply)]
                          @ map2 (\<lambda>tc m. ToolParam (content m) (call_id tc)) tcs pushed,
                      request_tools = False\<rparr> of
                Inl e \<Rightarrow>
                  \<lparr>response = ''Sorry, I encountered an error processing your request.'',
                    updatedHistory = h\<rparr>
              | Inr second \<Rightarrow>
                  \<lparr>response = content_or_empty second,
                    updatedHistory =
                      h @ [user_message u, assistant_message (content_or_empty second)]\<rparr>)"
proof -
  from tool_turn_reaches_second_request [OF conv first calls parse ids] obtain pushed where
    p: "list_all2 (\<lambda>tc m. execute_tool_call sv tools st tc = Inr m) tcs pushed"
    and t: "chatWithBot_try sv tools st u h =
             (case chat_completions_create sv
                     \<lparr>request_messages =
                        ps @ [AssistantParam (content_or_empty reply),
                              AssistantParam (content_or_empty reply)]
                          @ map2 (\<lambda>tc m. ToolParam (content m) (call_id tc)) tcs pushed,
                      request_tools = False\<rparr> of
                Inl e \<Rightarrow> Inl e
              | Inr second \<Rightarrow>
                  Inr \<lparr>response = content_or_empty second,
                       updatedHistory =
                         h @ [user_message u, assistant_message (content_or_empty second)]\<rparr>)"
    by blast
  have "chatWithBot sv tools st u h =
             (case chat_completions_create sv
                     \<lparr>request_messages =
                        ps @ [AssistantParam (content_or_empty reply),
                              AssistantParam (content_or_empty reply)]
                          @ map2 (\<lambda>tc m. ToolParam (content m) (call_id tc)) tcs pushed,
                      request_tools = False\<rparr> of
                Inl e \<Rightarrow>
                  \<lparr>response = ''Sorry, I encountered an error processing your request.'',
                    updatedHistory = h\<rparr>
              | Inr second \<Rightarrow>
                  \<lparr>response = content_or_empty second,
                    updatedHistory =
                      h @ [user_message u, assistant_message (content_or_empty second)]\<rparr>)"
    unfolding chatWithBot_def t by (simp add: apology_def split: sum.splits)
  with p t show ?thesis by blast
qed

lemma example_first_request:
  "\<not> looks_informational u \<Longrightarrow>
   map_throwing convertToOpenAIMessage (initial_messages (tool_turn_services tcs) example_state u []) =
     Inr [SystemParam ''You are a scheduling assistant.'', UserParam u]"
  by (simp add: initial_messages_def enhancedSystemPrompt_def relevantInfo_def
      tool_turn_services_def example_services_def convertToOpenAIMessage_def user_message_def)

lemma chatWithBot_try_Inl_iff:
  "(chatWithBot_try sv tools st u h = Inl e) =
     (map_throwing convertToOpenAIMessage (initial_messages sv st u h) = Inl e \<or>
      (\<exists>ps. map_throwing convertToOpenAIMessage (initial_messages sv st u h) = Inr ps \<and>
         (chat_completions_create sv \<lparr>request_messages = ps, request_tools = True\<rparr> = Inl e \<or>
          (\<exists>reply tcs.
             chat_completions_create sv \<lparr>request_messages = ps, request_tools = True\<rparr> = Inr reply \<and>
             reply_tool_calls reply = Some tcs \<and>
             (map_throwing (execute_tool_call sv tools st) tcs = Inl e \<or>
              (\<exists>pushed. map_throwing (execute_tool_call sv tools st) tcs = Inr pushed \<and>
                 (map_throwing convertToOpenAIMessage pushed = Inl e \<or>
                  (\<exists>params. map_throwing convertToOpenAIMessage pushed = Inr params \<and>
                     chat_completions_create sv
                       \<lparr>request_messages =
                          ps @ [AssistantParam (content_or_empty reply),
                                AssistantParam (content_or_empty reply)] @ params,
                        request_tools = False\<rparr> = Inl e))))))))"
  by (auto simp: chatWithBot_try_def Let_def run_tool_calls_map map_throwing_append
      convert_assistant split: sum.splits option.splits)

text \<open>
  C4, as stated, fails: a handler that throws does not by itself let the turn reach the
  second completion. The tool message whose call has an empty identifier is pushed, and
  then refused by \<^verbatim>\<open>convertToOpenAIMessage\<close> (\<open>Tool messages must have tool_call_id\<close>); and
  after the error result of a first call is pushed, a second call of the batch whose
  arguments do not parse throws outside the inner \<^verbatim>\<open>try\<close>. In both turns the handler of
  \<^verbatim>\<open>checkAvailability\<close> throws, its error result is pushed, and the turn ends in the
  \<^verbatim>\<open>catch\<close> with the apology and the history passed in.
\<close>

theorem throwing_handler_turn_can_end_in_apology:
  "execute_tool_call (tool_turn_services [example_call [] ''checkAvailability'' ''{}''])
     example_tools example_state (example_call [] ''checkAvailability'' ''{}'') =
     Inr \<lparr>role = Tool, content = ''{error:Failed to check availability}'',
          tool_call_id = Some [], tool_calls = None\<rparr> \<and>
   chatWithBot (tool_turn_services [example_call [] ''checkAvailability'' ''{}''])
     example_tools example_state ''Book it'' [user_message ''Hi''] =
     \<lparr>response = ''Sorry, I encountered an error processing your request.'',
      updatedHistory = [user_message ''Hi'']\<rparr> \<and>
   execute_tool_call
     (tool_turn_services
        [example_call ''call_1'' ''checkAvailability'' ''{}'',
         example_call ''call_2'' ''createAppointment'' ''{''])
     example_tools example_state (example_call ''call_1'' ''checkAvailability'' ''{}'') =
     Inr \<lparr>role = Tool, content = ''{error:Failed to check availability}'',
          tool_call_id = Some ''call_1'', tool_calls = None\<rparr> \<and>
   chatWithBot
     (tool_turn_services
        [example_call ''call_1'' ''checkAvailability'' ''{}'',
         example_call ''call_2'' ''createAppointment'' ''{''])
     example_tools example_state ''Book it'' [user_message ''Hi''] =
     \<lparr>response = ''Sorry, I encountered an error processing your request.'',
      updatedHistory = [user_message ''Hi'']\<rparr>"
  by (simp add: chatWithBot_def chatWithBot_try_def initial_messages_def enhancedSystemPrompt_def
      relevantInfo_def looks_informational_examples tool_turn_services_def example_services_def
      example_call_def convertToOpenAIMessage_def user_message_def assistant_message_def
      tool_message_def content_or_empty_def execute_tool_call_def callFunction_def
      example_tools_def apology_def)

text \<open>
  C4, amended. A tool call whose handler throws, or whose name has no case in the
  dispatcher (the dispatcher then throws \<open>Function ... not implemented\<close>), pushes the tool
  message whose content is the JSON text of \<^verbatim>\<open>{error: message}\<close> and whose \<^verbatim>\<open>tool_call_id\<close>
  is the identifier of the call, at the place where a result would be pushed, and the
  loop goes on with the next call. When the first completion asks for tool calls, the
  arguments of every call parse and every call has a non-empty identifier, the turn
  reaches the second completion request, which carries one tool message for each call in
  order, and the outcome of that request is the outcome of the turn: \<^verbatim>\<open>chatWithBot\<close>
  returns the content of the second completion as the final answer, or the apology when
  the second request itself fails.
\<close>

theorem tool_failure_is_a_tool_result:
  "(functionName \<notin> set registered_tools \<longrightarrow>
      callFunction sv tools st functionName args =
        Inl (Error (''Function '' @ functionName @ '' not implemented''))) \<and>
   (json_parse tools (function_arguments tc) = Inr args \<and>
    callFunction sv tools st (function_name tc) args = Inl err \<longrightarrow>
      execute_tool_call sv tools st tc =
        Inr \<lparr>role = Tool,
             content = json_stringify tools (error_object tools (error_message err)),
             tool_call_id = Some (call_id tc), tool_calls = None\<rparr>) \<and>
   (json_parse tools (function_arguments tc) = Inr args \<and>
    callFunction sv tools st (function_name tc) args = Inr result \<longrightarrow>
      execute_tool_call sv tools st tc =
        Inr \<lparr>role = Tool, content = json_stringify tools result,
             tool_call_id = Some (call_id tc), tool_calls = None\<rparr>) \<and>
   (execute_tool_call sv tools st tc = Inr pushed1 \<longrightarrow>
      run_tool_calls sv tools st (tc # rest) messages =
        run_tool_calls sv tools st rest (messages @ [pushed1])) \<and>
   (map_throwing convertToOpenAIMessage (initial_messages sv st u h) = Inr ps \<and>
    chat_completions_create sv \<lparr>request_messages = ps, request_tools = True\<rparr> = Inr reply \<and>
    reply_tool_calls reply = Some tcs \<and>
    (\<forall>tc\<in>set tcs. \<exists>args. json_parse tools (function_arguments tc) = Inr args) \<and>
    (\<forall>tc\<in>set tcs. call_id tc \<noteq> []) \<longrightarrow>
      (\<exists>pushed.
         list_all2 (\<lambda>tc m. execute_tool_call sv tools st tc = Inr m) tcs pushed \<and>
         chatWithBot_try sv tools st u h =
           (case chat_completions_create sv
                   \<lparr>request_messages =
                      ps @ [AssistantParam (content_or_empty reply),
                            AssistantParam (content_or_empty reply)]
                        @ map2 (\<lambda>tc m. ToolParam (content m) (call_id tc)) tcs pushed,
                    request_tools = False\<rparr> of
              Inl e \<Rightarrow> Inl e
            | Inr second \<Rightarrow>
                Inr \<lparr>response = content_or_empty second,
                     updatedHistory =
                       h @ [user_message u, assistant_message (content_or_empty second)]\<rparr>) \<and>
         chatWithBot sv tools st u h =
           (case chat_completions_create sv
                   \<lparr>request_messages =
                      ps @ [AssistantParam (content_or_empty reply),
                            AssistantParam (content_or_empty reply)]
                        @ map2 (\<lambda>tc m. ToolParam (content m) (call_id tc)) tcs pushed,
                    request_tools = False\<rparr> of
              Inl e \<Rightarrow>
                \<lparr>response = ''Sorry, I encountered an error processing your request.'',
                  updatedHistory = h\<rparr>
            | Inr second \<Rightarrow>
                \<lparr>response = content_or_empty second,
                  updatedHistory =
                    h @ [user_message u, assistant_message (content_or_empty second)]\<rparr>)))"
proof (intro conjI impI)
  assume "functionName \<notin> set registered_tools"
  then show "callFunction sv tools st functionName args =
      Inl (Error (''Function '' @ functionName @ '' not implemented''))"
    by (rule callFunction_unregistered)
next
  assume "json_parse tools (function_arguments tc) = Inr args \<and>
    callFunction sv tools st (function_name tc) args = Inl err"
  then show "execute_tool_call sv tools st tc =
      Inr \<lparr>role = Tool, content = json_stringify tools (error_object tools (error_message err)),
           tool_call_id = Some (call_id tc), tool_calls = None\<rparr>"
    using execute_tool_call_throwing [of tools tc args sv st err] by (simp add: tool_message_def)
next
  assume "json_parse tools (function_arguments tc) = Inr args \<and>
    callFunction sv tools st (function_name tc) args = Inr result"
  then show "execute_tool_call sv tools st tc =
      Inr \<lparr>role = Tool, content = json_stringify tools result,
           tool_call_id = Some (call_id tc), tool_calls = None\<rparr>"
    using execute_tool_call_returning [of tools tc args sv st result] by (simp add: tool_message_def)
next
  assume "execute_tool_call sv tools st tc = Inr pushed1"
  then show "run_tool_calls sv tools st (tc # rest) messages =
      run_tool_calls sv tools st rest (messages @ [pushed1])"
    by simp
next
  assume a: "map_throwing convertToOpenAIMessage (initial_messages sv st u h) = Inr ps \<and>
    chat_completions_create sv \<lparr>request_messages = ps, request_tools = True\<rparr> = Inr reply \<and>
    reply_tool_calls reply = Some tcs \<and>
    (\<forall>tc\<in>set tcs. \<exists>args. json_parse tools (function_arguments tc) = Inr args) \<and>
    (\<forall>tc\<in>set tcs. call_id tc \<noteq> [])"
  show "\<exists>pushed.
         list_all2 (\<lambda>tc m. execute_tool_call sv tools st tc = Inr m) tcs pushed \<and>
         chatWithBot_try sv tools st u h =
           (case chat_completions_create sv
                   \<lparr>request_messages =
                      ps @ [AssistantParam (content_or_empty reply),
                            AssistantParam (content_or_empty reply)]
                        @ map2 (\<lambda>tc m. ToolParam (content m) (call_id tc)) tcs pushed,
                    request_tools = False\<rparr> of
              Inl e \<Rightarrow> Inl e
            | Inr second \<Rightarrow>
                Inr \<lparr>response = content_or_empty second,
                     updatedHistory =
                       h @ [user_message u, assistant_message (content_or_empty second)]\<rparr>) \<and>
         chatWithBot sv tools st u h =
           (case chat_completions_create sv
                   \<lparr>request_messages =
                      ps @ [AssistantParam (content_or_empty reply),
                            AssistantParam (content_or_empty reply)]
                        @ map2 (\<lambda>tc m. ToolParam (content m) (call_id tc)) tcs pushed,
                    request_tools = False\<rparr> of
              Inl e \<Rightarrow>
                \<lparr>response = ''Sorry, I encountered an error processing your request.'',
                  updatedHistory = h\<rparr>
            | Inr second \<Rightarrow>
                \<lparr>response = content_or_empty second,
                  updatedHistory =
                    h @ [user_message u, assistant_message (content_or_empty second)]\<rparr>)"
    using a by (intro tool_turn_outcome) blast+
qed

theorem tool_failure_is_a_tool_result_witness:
  "callFunction
     (tool_turn_services
        [example_call ''call_1'' ''checkAvailability'' ''{}'', example_call ''call_2'' ''sendEmail'' ''{}''])
     example_tools example_state ''sendEmail'' ''{}'' =
     Inl (Error ''Function sendEmail not implemented'') \<and>
   execute_tool_call
     (tool_turn_services
        [example_call ''call_1'' ''checkAvailability'' ''{}'', example_call ''call_2'' ''sendEmail'' ''{}''])
     example_tools example_state (example_call ''call_1'' ''checkAvailability'' ''{}'') =
     Inr \<lparr>role = Tool, content = ''{error:Failed to check availability}'',
          tool_call_id = Some ''call_1'', tool_calls = None\<rparr> \<and>
   chatWithBot
     (tool_turn_services
        [example_call ''call_1'' ''checkAvailability'' ''{}'', example_call ''call_2'' ''sendEmail'' ''{}''])
     example_tools example_state ''Book it'' [] =
     \<lparr>response = ''Done.'',
      updatedHistory = [user_message ''Book it'', assistant_message ''Done.'']\<rparr>"
proof -
  let ?c1 = "example_call ''call_1'' ''checkAvailability'' ''{}''"
  let ?c2 = "example_call ''call_2'' ''sendEmail'' ''{}''"
  let ?sv = "tool_turn_services [?c1, ?c2]"
  let ?ps = "[SystemParam ''You are a scheduling assistant.'', UserParam ''Book it'']"
  let ?reply = "\<lparr>reply_content = Some ''One moment.'', reply_tool_calls = Some [?c1, ?c2]\<rparr>"
  note T = tool_failure_is_a_tool_result [where functionName = "''sendEmail''" and sv = ?sv
      and tools = example_tools and st = example_state and args = "''{}''" and tc = ?c1
      and err = "Error ''Failed to check availability''" and u = "''Book it''" and h = "[]"
      and ps = ?ps and reply = ?reply and tcs = "[?c1, ?c2]"]
  have unregistered: "''sendEmail'' \<notin> set registered_tools"
    by (simp add: registered_tools_def)
  have parsed: "json_parse example_tools (function_arguments ?c1) = Inr ''{}''"
    by (simp add: example_tools_def example_call_def)
  have thrown: "callFunction ?sv example_tools example_state (function_name ?c1) ''{}'' =
      Inl (Error ''Failed to check availability'')"
    by (simp add: callFunction_def example_tools_def example_call_def)
  have conv: "map_throwing convertToOpenAIMessage (initial_messages ?sv example_state ''Book it'' []) = Inr ?ps"
    by (rule example_first_request) (rule looks_informational_examples)
  have first: "chat_completions_create ?sv \<lparr>request_messages = ?ps, request_tools = True\<rparr> = Inr ?reply"
    by (simp add: tool_turn_services_def)
  have all_parse: "\<forall>tc\<in>set [?c1, ?c2]. \<exists>args. json_parse example_tools (function_arguments tc) = Inr args"
    by (simp add: example_tools_def example_call_def)
  have ids: "\<forall>tc\<in>set [?c1, ?c2]. call_id tc \<noteq> []"
    by (simp add: example_call_def)
  have second: "chat_completions_create ?sv \<lparr>request_messages = ms, request_tools = False\<rparr> =
      Inr \<lparr>reply_content = Some ''Done.'', reply_tool_calls = None\<rparr>" for ms
    by (simp add: tool_turn_services_def)
  from T unregistered have a: "callFunction ?sv example_tools example_state ''sendEmail'' ''{}'' =
      Inl (Error ''Function sendEmail not implemented'')"
    by simp
  from T parsed thrown have b: "execute_tool_call ?sv example_tools example_state ?c1 =
      Inr \<lparr>role = Tool, content = ''{error:Failed to check availability}'',
           tool_call_id = Some ''call_1'', tool_calls = None\<rparr>"
    by (simp add: example_tools_def example_call_def)
  from T conv first all_parse ids have
    c: "chatWithBot ?sv example_tools example_state ''Book it'' [] =
      \<lparr>response = ''Done.'', updatedHistory = [user_message ''Book it'', assistant_message ''Done.'']\<rparr>"
    by (auto simp: second content_or_empty_def)
  from a b c show ?thesis by blast
qed

text \<open>
  C5 (fails on the code). Claim: arguments that are not valid JSON make that one tool call
  fail with an error result while the turn goes on to the second completion. In the code
  \<^verbatim>\<open>JSON.parse\<close> stands outside the \<^verbatim>\<open>try\<close> that guards \<^verbatim>\<open>callFunction\<close>: its exception
  reaches the \<^verbatim>\<open>catch\<close> of the turn, which answers with the apology and the old history. No
  tool message is pushed and no second completion is requested.
\<close>

theorem unparseable_arguments_end_the_turn:
  "json_parse example_tools ''{'' = Inl (SyntaxError ''Unexpected end of JSON input'') \<and>
   chatWithBot (tool_turn_services [example_call ''call_1'' ''createAppointment'' ''{''])
     example_tools example_state ''Book it'' [user_message ''Hi''] =
     \<lparr>response = ''Sorry, I encountered an error processing your request.'',
      updatedHistory = [user_message ''Hi'']\<rparr>"
  by (simp add: chatWithBot_def chatWithBot_try_def initial_messages_def enhancedSystemPrompt_def
      relevantInfo_def looks_informational_examples tool_turn_services_def example_services_def
      example_call_def convertToOpenAIMessage_def user_message_def content_or_empty_def
      execute_tool_call_def example_tools_def apology_def)

text \<open>
  C9. In a turn that succeeds (the \<^verbatim>\<open>try\<close> block returns), with or without tool calls, the
  returned history is the history passed in followed by the user message and the final
  assistant message, which holds the response: nothing before is changed or removed and
  no tool-call or tool-result message is added.
\<close>

theorem successful_turn_appends_two_messages:
  "chatWithBot_try sv tools st u h = Inr r \<Longrightarrow>
   updatedHistory r = h @ [user_message u, assistant_message (response r)] \<and>
   chatWithBot sv tools st u h = r"
  by (auto simp: chatWithBot_def chatWithBot_try_def Let_def split: sum.splits option.splits)

theorem successful_turn_appends_two_messages_witness:
  "chatWithBot_try example_services example_tools example_state ''Book it''
     [user_message ''Hi'', assistant_message ''Hello.''] =
     Inr \<lparr>response = ''ok'',
          updatedHistory =
            [user_message ''Hi'', assistant_message ''Hello.'', user_message ''Book it'',
             assistant_message ''ok'']\<rparr> \<and>
   chatWithBot (tool_turn_services [example_call ''call_1'' ''createAppointment'' ''{}''])
     example_tools example_state ''Book it'' [user_message ''Hi'', assistant_message ''Hello.''] =
     \<lparr>response = ''Done.'',
      updatedHistory =
        [user_message ''Hi'', assistant_message ''Hello.'', user_message ''Book it'',
         assistant_message ''Done.'']\<rparr>"
proof -
  let ?h = "[user_message ''Hi'', assistant_message ''Hello.'']"
  let ?sv = "tool_turn_services [example_call ''call_1'' ''createAppointment'' ''{}'']"
  have plain: "\<exists>r. chatWithBot_try example_services example_tools example_state ''Book it'' ?h = Inr r
      \<and> response r = ''ok''"
    by (simp add: chatWithBot_try_def initial_messages_def enhancedSystemPrompt_def
        relevantInfo_def looks_informational_examples example_services_def
        convertToOpenAIMessage_def user_message_def assistant_message_def content_or_empty_def)
  have tool: "\<exists>r. chatWithBot_try ?sv example_tools example_state ''Book it'' ?h = Inr r
      \<and> response r = ''Done.''"
    by (simp add: chatWithBot_try_def initial_messages_def enhancedSystemPrompt_def
        relevantInfo_def looks_informational_examples tool_turn_services_def example_services_def
        example_call_def convertToOpenAIMessage_def user_message_def assistant_message_def
        tool_message_def content_or_empty_def execute_tool_call_def example_tools_def
        callFunction_def)
  from plain obtain r1 where
    r1: "chatWithBot_try example_services example_tools example_state ''Book it'' ?h = Inr r1"
      "response r1 = ''ok''"
    by blast
  from tool obtain r2 where
    r2: "chatWithBot_try ?sv example_tools example_state ''Book it'' ?h = Inr r2"
      "response r2 = ''Done.''"
    by blast
  from successful_turn_appends_two_messages [OF r1(1)] r1
  have a: "chatWithBot_try example_services example_tools example_state ''Book it'' ?h =
      Inr \<lparr>response = ''ok'', updatedHistory = ?h @ [user_message ''Book it'', assistant_message ''ok'']\<rparr>"
    by (cases r1) simp
  from successful_turn_appends_two_messages [OF r2(1)] r2
  have b: "chatWithBot ?sv example_tools example_state ''Book it'' ?h =
      \<lparr>response = ''Done.'', updatedHistory = ?h @ [user_message ''Book it'', assistant_message ''Done.'']\<rparr>"
    by (cases r2) simp
  from a b show ?thesis by simp
qed

text \<open>
  C10. \<^verbatim>\<open>convertToOpenAIMessage\<close> gives an assistant message its role and content only,
  whatever its \<^verbatim>\<open>tool_calls\<close>. When the first completion asks for tool calls, the tool
  loop runs on the initial messages followed by the assistant reply without the tool
  calls and the same reply with them, and pushes its tool messages behind; the second
  request is the conversion of that list, so it holds two consecutive assistant messages
  with the same content, neither with the tool calls.
\<close>

theorem tool_turn_sends_assistant_reply_twice:
  "convertToOpenAIMessage
     \<lparr>role = Assistant, content = c, tool_call_id = i, tool_calls = t\<rparr> = Inr (AssistantParam c) \<and>
   (map_throwing convertToOpenAIMessage (initial_messages sv st u h) = Inr ps \<and>
    chat_completions_create sv \<lparr>request_messages = ps, request_tools = True\<rparr> = Inr reply \<and>
    reply_tool_calls reply = Some tcs \<and>
    map_throwing (execute_tool_call sv tools st) tcs = Inr pushed \<and>
    map_throwing convertToOpenAIMessage pushed = Inr params \<longrightarrow>
      run_tool_calls sv tools st tcs
        (initial_messages sv st u h
           @ [\<lparr>role = Assistant, content = content_or_empty reply, tool_call_id = None,
                tool_calls = None\<rparr>,
              \<lparr>role = Assistant, content = content_or_empty reply, tool_call_id = None,
                tool_calls = Some tcs\<rparr>]) =
        Inr (initial_messages sv st u h
               @ [\<lparr>role = Assistant, content = content_or_empty reply, tool_call_id = None,
                    tool_calls = None\<rparr>,
                  \<lparr>role = Assistant, content = content_or_empty reply, tool_call_id = None,
                    tool_calls = Some tcs\<rparr>]
               @ pushed) \<and>
      map_throwing convertToOpenAIMessage
        (initial_messages sv st u h
           @ [\<lparr>role = Assistant, content = content_or_empty reply, tool_call_id = None,
                tool_calls = None\<rparr>,
              \<lparr>role = Assistant, content = content_or_empty reply, tool_call_id = None,
                tool_calls = Some tcs\<rparr>]
           @ pushed) =
        Inr (ps @ [AssistantParam (content_or_empty reply),
                   AssistantParam (content_or_empty reply)] @ params) \<and>
      chatWithBot_try sv tools st u h =
        (case chat_completions_create sv
                \<lparr>request_messages =
                   ps @ [AssistantParam (content_or_empty reply),
                         AssistantParam (content_or_empty reply)] @ params,
                 request_tools = False\<rparr> of
           Inl e \<Rightarrow> Inl e
         | Inr second \<Rightarrow>
             Inr \<lparr>response = content_or_empty second,
                  updatedHistory =
                    h @ [user_message u, assistant_message (content_or_empty second)]\<rparr>))"
proof (intro conjI impI)
  show "convertToOpenAIMessage
     \<lparr>role = Assistant, content = c, tool_call_id = i, tool_calls = t\<rparr> = Inr (AssistantParam c)"
    by (simp add: convertToOpenAIMessage_def)
next
  assume a: "map_throwing convertToOpenAIMessage (initial_messages sv st u h) = Inr ps \<and>
    chat_completions_create sv \<lparr>request_messages = ps, request_tools = True\<rparr> = Inr reply \<and>
    reply_tool_calls reply = Some tcs \<and>
    map_throwing (execute_tool_call sv tools st) tcs = Inr pushed \<and>
    map_throwing convertToOpenAIMessage pushed = Inr params"
  let ?two = "[\<lparr>role = Assistant, content = content_or_empty reply, tool_call_id = None,
                tool_calls = None\<rparr>,
              \<lparr>role = Assistant, content = content_or_empty reply, tool_call_id = None,
                tool_calls = Some tcs\<rparr>]"
  show "run_tool_calls sv tools st tcs (initial_messages sv st u h @ ?two) =
      Inr (initial_messages sv st u h @ ?two @ pushed)"
    using a by (simp add: run_tool_calls_map)
  show "map_throwing convertToOpenAIMessage (initial_messages sv st u h @ ?two @ pushed) =
      Inr (ps @ [AssistantParam (content_or_empty reply),
                 AssistantParam (content_or_empty reply)] @ params)"
    using a by (simp add: map_throwing_append convertToOpenAIMessage_def)
  show "chatWithBot_try sv tools st u h =
        (case chat_completions_create sv
                \<lparr>request_messages =
                   ps @ [AssistantParam (content_or_empty reply),
                         AssistantParam (content_or_empty reply)] @ params,
                 request_tools = False\<rparr> of
           Inl e \<Rightarrow> Inl e
         | Inr second \<Rightarrow>
             Inr \<lparr>response = content_or_empty second,
                  updatedHistory =
                    h @ [user_message u, assistant_message (content_or_empty second)]\<rparr>)"
    using a by (intro chatWithBot_try_tool_branch) blast+
qed

theorem tool_turn_sends_assistant_reply_twice_witness:
  "map_throwing convertToOpenAIMessage
     (initial_messages (tool_turn_services [example_call ''call_1'' ''createAppointment'' ''{}''])
        example_state ''Book it'' []
      @ [\<lparr>role = Assistant, content = ''One moment.'', tool_call_id = None, tool_calls = None\<rparr>,
         \<lparr>role = Assistant, content = ''One moment.'', tool_call_id = None,
           tool_calls = Some [example_call ''call_1'' ''createAppointment'' ''{}'']\<rparr>]
      @ [tool_message ''call_1'' ''{success:true}'']) =
     Inr [SystemParam ''You are a scheduling assistant.'', UserParam ''Book it'',
          AssistantParam ''One moment.'', AssistantParam ''One moment.'',
          ToolParam ''{success:true}'' ''call_1''] \<and>
   chatWithBot_try (tool_turn_services [example_call ''call_1'' ''createAppointment'' ''{}''])
     example_tools example_state ''Book it'' [] =
     Inr \<lparr>response = ''Done.'',
          updatedHistory = [user_message ''Book it'', assistant_message ''Done.'']\<rparr>"
proof -
  let ?c1 = "example_call ''call_1'' ''createAppointment'' ''{}''"
  let ?sv = "tool_turn_services [?c1]"
  let ?ps = "[SystemParam ''You are a scheduling assistant.'', UserParam ''Book it'']"
  let ?reply = "\<lparr>reply_content = Some ''One moment.'', reply_tool_calls = Some [?c1]\<rparr>"
  have conv: "map_throwing convertToOpenAIMessage (initial_messages ?sv example_state ''Book it'' []) = Inr ?ps"
    by (rule example_first_request) (rule looks_informational_examples)
  have first: "chat_completions_create ?sv \<lparr>request_messages = ?ps, request_tools = True\<rparr> = Inr ?reply"
    by (simp add: tool_turn_services_def)
  have calls: "reply_tool_calls ?reply = Some [?c1]"
    by simp
  have exec: "map_throwing (execute_tool_call ?sv example_tools example_state) [?c1] =
      Inr [tool_message ''call_1'' ''{success:true}'']"
    by (simp add: execute_tool_call_def example_tools_def example_call_def callFunction_def)
  have tool_conv: "map_throwing convertToOpenAIMessage [tool_message ''call_1'' ''{success:true}''] =
      Inr [ToolParam ''{success:true}'' ''call_1'']"
    by (simp add: convertToOpenAIMessage_def tool_message_def)
  have second: "chat_completions_create ?sv \<lparr>request_messages = ms, request_tools = False\<rparr> =
      Inr \<lparr>reply_content = Some ''Done.'', reply_tool_calls = None\<rparr>" for ms
    by (simp add: tool_turn_services_def)
  from tool_turn_sends_assistant_reply_twice [where sv = ?sv and tools = example_tools
      and st = example_state and u = "''Book it''" and h = "[]" and ps = ?ps and reply = ?reply
      and tcs = "[?c1]" and pushed = "[tool_message ''call_1'' ''{success:true}'']"
      and params = "[ToolParam ''{success:true}'' ''call_1'']"]
    conv first calls exec tool_conv
  show ?thesis
    by (simp add: content_or_empty_def second)
qed

text \<open>
  C1 as stated fails: an error thrown during retrieval is caught inside the turn. With the
  embedding service down, \<^verbatim>\<open>semanticSearch\<close> throws for an informational message, and the
  turn still answers with the content of the completion and extends the history.
\<close>

theorem retrieval_error_is_absorbed:
  "looks_informational ''What is the policy?'' \<and>
   semanticSearch offline_embedding example_state ''What is the policy?'' 3 =
     Inl (Error ''connect ECONNREFUSED'') \<and>
   chatWithBot offline_embedding example_tools example_state ''What is the policy?''
     [user_message ''Hi''] =
     \<lparr>response = ''ok'',
      updatedHistory =
        [user_message ''Hi'', user_message ''What is the policy?'', assistant_message ''ok'']\<rparr> \<and>
   ''ok'' \<noteq> apology"
  by (simp add: chatWithBot_def chatWithBot_try_def initial_messages_def enhancedSystemPrompt_def
      relevantInfo_def looks_informational_examples semanticSearch_def offline_embedding_def
      example_services_def convertToOpenAIMessage_def user_message_def content_or_empty_def
      apology_def)

text \<open>
  C1 (amended). Whenever an error leaves the \<^verbatim>\<open>try\<close> block of the turn, whatever the
  error, \<^verbatim>\<open>chatWithBot\<close> returns the fixed apology and the history it was given. An error
  leaves the block exactly when a message cannot be converted, the first or the second
  completion request fails, or the argument string of a tool call does not parse. Errors
  of the retrieval and of the tool functions are not among the causes: they are caught
  inside the turn.
\<close>

theorem turn_error_yields_apology:
  "(chatWithBot_try sv tools st u h = Inl e \<longrightarrow>
      chatWithBot sv tools st u h =
        \<lparr>response = ''Sorry, I encountered an error processing your request.'',
         updatedHistory = h\<rparr>) \<and>
   ((chatWithBot_try sv tools st u h = Inl e) =
     (map_throwing convertToOpenAIMessage (initial_messages sv st u h) = Inl e \<or>
      (\<exists>ps. map_throwing convertToOpenAIMessage (initial_messages sv st u h) = Inr ps \<and>
         (chat_completions_create sv \<lparr>request_messages = ps, request_tools = True\<rparr> = Inl e \<or>
          (\<exists>reply tcs.
             chat_completions_create sv \<lparr>request_messages = ps, request_tools = True\<rparr> = Inr reply \<and>
             reply_tool_calls reply = Some tcs \<and>
             ((\<exists>tc\<in>set tcs. json_parse tools (function_arguments tc) = Inl e) \<and>
              map_throwing (execute_tool_call sv tools st) tcs = Inl e \<or>
              (\<exists>pushed. map_throwing (execute_tool_call sv tools st) tcs = Inr pushed \<and>
                 (map_throwing convertToOpenAIMessage pushed = Inl e \<or>
                  (\<exists>params. map_throwing convertToOpenAIMessage pushed = Inr params \<and>
                     chat_completions_create sv
                       \<lparr>request_messages =
                          ps @ [AssistantParam (content_or_empty reply),
                                AssistantParam (content_or_empty reply)] @ params,
                        request_tools = False\<rparr> = Inl e)))))))))"
proof (intro conjI impI)
  assume "chatWithBot_try sv tools st u h = Inl e"
  then show "chatWithBot sv tools st u h =
      \<lparr>response = ''Sorry, I encountered an error processing your request.'', updatedHistory = h\<rparr>"
    by (simp add: chatWithBot_def apology_def)
next
  have parse: "(\<exists>tc\<in>set tcs. json_parse tools (function_arguments tc) = Inl e)"
    if "map_throwing (execute_tool_call sv tools st) tcs = Inl e" for tcs
    using map_throwing_Inl [OF that] by (simp add: execute_tool_call_Inl)
  show "(chatWithBot_try sv tools st u h = Inl e) =
     (map_throwing convertToOpenAIMessage (initial_messages sv st u h) = Inl e \<or>
      (\<exists>ps. map_throwing convertToOpenAIMessage (initial_messages sv st u h) = Inr ps \<and>
         (chat_completions_create sv \<lparr>request_messages = ps, request_tools = True\<rparr> = Inl e \<or>
          (\<exists>reply tcs.
             chat_completions_create sv \<lparr>request_messages = ps, request_tools = True\<rparr> = Inr reply \<and>
             reply_tool_calls reply = Some tcs \<and>
             ((\<exists>tc\<in>set tcs. json_parse tools (function_arguments tc) = Inl e) \<and>
              map_throwing (execute_tool_call sv tools st) tcs = Inl e \<or>
              (\<exists>pushed. map_throwing (execute_tool_call sv tools st) tcs = Inr pushed \<and>
                 (map_throwing convertToOpenAIMessage pushed = Inl e \<or>
                  (\<exists>params. map_throwing convertToOpenAIMessage pushed = Inr params \<and>
                     chat_completions_create sv
                       \<lparr>request_messages =
                          ps @ [AssistantParam (content_or_empty reply),
                                AssistantParam (content_or_empty reply)] @ params,
                        request_tools = False\<rparr> = Inl e))))))))"
    unfolding chatWithBot_try_Inl_iff using parse by blast
qed

theorem turn_error_yields_apology_witness:
  "chatWithBot_try offline_chat example_tools example_state ''Book it'' [user_message ''Hi''] =
     Inl (Error ''Service unavailable'') \<and>
   chatWithBot offline_chat example_tools example_state ''Book it'' [user_message ''Hi''] =
     \<lparr>response = ''Sorry, I encountered an error processing your request.'',
      updatedHistory = [user_message ''Hi'']\<rparr>"
proof -
  have conv: "map_throwing convertToOpenAIMessage
      (initial_messages offline_chat example_state ''Book it'' [user_message ''Hi'']) =
      Inr [SystemParam ''You are a scheduling assistant.'', UserParam ''Hi'', UserParam ''Book it'']"
    by (simp add: initial_messages_def enhancedSystemPrompt_def relevantInfo_def
        looks_informational_examples offline_chat_def example_services_def
        convertToOpenAIMessage_def user_message_def)
  have first: "chat_completions_create offline_chat req = Inl (Error ''Service unavailable'')" for req
    by (simp add: offline_chat_def)
  note T = turn_error_yields_apology [where sv = offline_chat and tools = example_tools
      and st = example_state and u = "''Book it''" and h = "[user_message ''Hi'']"
      and e = "Error ''Service unavailable''"]
  from T conv first have
    failed: "chatWithBot_try offline_chat example_tools example_state ''Book it'' [user_message ''Hi''] =
      Inl (Error ''Service unavailable'')"
    by blast
  with T show ?thesis by blast
qed

section \<open>Properties of the snapshot\<close>

subsection \<open>What is written is what is read, for finite numbers\<close>












subsection \<open>The requests for embeddings\<close>














subsection \<open>Loading\<close>















end
